theory Spec2Isabelle
  imports Main
begin

section \<open>Ledger data model\<close>

text \<open>
  The tables are the Sequelize models \<^verbatim>\<open>User\<close>, \<^verbatim>\<open>Course\<close>, \<^verbatim>\<open>Enrollment\<close> and
  \<^verbatim>\<open>Payment\<close>. Only the columns that the payment and enrollment handlers read or
  write are kept. Money columns are \<^verbatim>\<open>DECIMAL(10, 2)\<close>; an amount is held here as its
  exact number of cents, so \<^verbatim>\<open>paymentIntent.amount / 100\<close> (cents to units) is the
  identity on this representation. A date is a number of milliseconds.
\<close>

type_synonym uuid = string
type_synonym money = int
type_synonym time = nat

datatype role = Admin | Teacher | Student

datatype enrollment_status =
  EnrPending | EnrActive | EnrCompleted | EnrCancelled | EnrSuspended

datatype payment_progress = PsPending | PsPartial | PsCompleted | PsOverdue

datatype payment_status =
  Pending | Processing | Completed | Failed | Cancelled | Refunded

datatype payment_method = Cash | Card | Transfer | Stripe | Paypal | Conekta

datatype payment_type = Full | Partial | Installment | Refund

record user =
  u_id :: uuid
  u_role :: role

record course =
  c_id :: uuid
  isActive :: bool
  maxStudents :: int
  price :: money

text \<open>\<^verbatim>\<open>paidAmount\<close> has a default of 0 and no \<^verbatim>\<open>allowNull: false\<close>: the column can hold
  \<^verbatim>\<open>NULL\<close>, which is \<open>None\<close> here.\<close>

record enrollment =
  e_id :: uuid
  studentId :: uuid
  courseId :: uuid
  teacherId :: uuid
  e_status :: enrollment_status
  startDate :: time
  endDate :: time
  paymentStatus :: payment_progress
  totalAmount :: money
  paidAmount :: "money option"
  discountAmount :: money
  lastPaymentDate :: "time option"

text \<open>
  A value of type \<open>payment\<close> is what a handler passes to \<^verbatim>\<open>Payment.create\<close> as well as
  a stored row. \<^verbatim>\<open>paymentMethod\<close>, \<^verbatim>\<open>paymentType\<close> and \<^verbatim>\<open>processedBy\<close> are optional
  in it because \<^verbatim>\<open>ConektaController.createOrder\<close> passes an object without them. The
  controller also assigns \<^verbatim>\<open>method\<close>, \<^verbatim>\<open>studentId\<close> and \<^verbatim>\<open>paidDate\<close>, which are
  not columns of the \<^verbatim>\<open>Payment\<close> model and are therefore not part of a row.
  \<^verbatim>\<open>stripeRefundId\<close> is the key the refund handler adds to the \<^verbatim>\<open>metadata\<close> column.
\<close>

record payment =
  p_id :: uuid
  enrollmentId :: uuid
  amount :: money
  currency :: string
  paymentMethod :: "payment_method option"
  paymentType :: "payment_type option"
  p_status :: payment_status
  transactionId :: "string option"
  externalPaymentId :: "string option"
  receiptNumber :: "string option"
  processedBy :: "uuid option"
  paymentDate :: time
  refundAmount :: money
  refundReason :: "string option"
  refundedBy :: "uuid option"
  refundedAt :: "time option"
  stripeRefundId :: "string option"

record ledger =
  users :: "user list"
  courses :: "course list"
  enrollments :: "enrollment list"
  payments :: "payment list"

section \<open>Requests, responses and the environment of one request\<close>

text \<open>
  Every handler is wrapped in \<^verbatim>\<open>try { ... } catch\<close>. What can throw inside is an awaited
  call to the data-access layer, to the payment processor or to the mailer, for a reason
  of the layer behind it that the model does not spell out: a lost connection, a declined
  charge. The environment of a request says which kind of call throws during that request
  for such a reason; it also carries the clock reading (\<^verbatim>\<open>new Date()\<close>), the generated
  identifiers (the row's UUID, the \<^verbatim>\<open>TXN-...\<close> and \<^verbatim>\<open>RCP-...\<close> strings) and
  \<^verbatim>\<open>error.message\<close> of the error that is thrown, if one is. An insert that the \<^verbatim>\<open>Payment\<close> model itself refuses is
  not left to the environment: see \<open>Payment_accepts\<close> below. The authentication and role
  middleware in front of a handler is not part of the model.
\<close>

datatype call =
  UserFindByPk | CourseFindByPk | EnrollmentFindByPk | EnrollmentFindOne |
  EnrollmentCreate | EnrollmentUpdate |
  PaymentFindByPk | PaymentFindOne | PaymentCreate | PaymentSum | PaymentUpdate |
  PaymentSave | GatewayCall | SendEmail

record env =
  now :: time
  throws :: "call \<Rightarrow> bool"
  newId :: uuid
  txn :: string
  rcp :: string
  errorMessage :: string

datatype response = Response (statusCode: nat) (message: string)

text \<open>JavaScript truthiness of a nullable string: \<^verbatim>\<open>null\<close>, \<^verbatim>\<open>undefined\<close> and the empty
  string are falsy.\<close>

definition truthy :: "string option \<Rightarrow> bool" where
  "truthy v = (case v of None \<Rightarrow> False | Some x \<Rightarrow> x \<noteq> [])"

section \<open>Data access\<close>

definition Enrollment_findByPk :: "ledger \<Rightarrow> uuid \<Rightarrow> enrollment option" where
  "Enrollment_findByPk s k = find (\<lambda>e. e_id e = k) (enrollments s)"

definition Payment_findByPk :: "ledger \<Rightarrow> uuid \<Rightarrow> payment option" where
  "Payment_findByPk s k = find (\<lambda>p. p_id p = k) (payments s)"

definition User_findByPk :: "ledger \<Rightarrow> uuid \<Rightarrow> user option" where
  "User_findByPk s k = find (\<lambda>u. u_id u = k) (users s)"

definition Course_findByPk :: "ledger \<Rightarrow> uuid \<Rightarrow> course option" where
  "Course_findByPk s k = find (\<lambda>c. c_id c = k) (courses s)"

text \<open>\<^verbatim>\<open>Payment.findOne({ where: { externalPaymentId } })\<close> and
  \<^verbatim>\<open>Payment.findOne({ where: { transactionId } })\<close>.\<close>

definition Payment_findOne_external :: "ledger \<Rightarrow> string \<Rightarrow> payment option" where
  "Payment_findOne_external s x = find (\<lambda>p. externalPaymentId p = Some x) (payments s)"

definition Payment_findOne_transaction :: "ledger \<Rightarrow> string \<Rightarrow> payment option" where
  "Payment_findOne_transaction s x = find (\<lambda>p. transactionId p = Some x) (payments s)"

text \<open>
  \<^verbatim>\<open>Payment.create\<close> validates the object against the model and inserts it. The model
  refuses it, and \<^verbatim>\<open>Payment.create\<close> throws, unless \<^verbatim>\<open>amount\<close> is at least 0.01
  (\<^verbatim>\<open>validate: { min: 0.01 }\<close>) and fits \<^verbatim>\<open>DECIMAL(10, 2)\<close> (at most 99999999.99),
  the \<^verbatim>\<open>allowNull: false\<close> columns \<^verbatim>\<open>paymentMethod\<close>, \<^verbatim>\<open>paymentType\<close> and
  \<^verbatim>\<open>processedBy\<close> are there, the columns declared with \<^verbatim>\<open>references\<close>
  (\<^verbatim>\<open>enrollmentId\<close>, \<^verbatim>\<open>processedBy\<close>) name a row of their table, and the primary
  key and the \<^verbatim>\<open>unique: true\<close> columns \<^verbatim>\<open>transactionId\<close> and \<^verbatim>\<open>receiptNumber\<close>
  (where not \<^verbatim>\<open>NULL\<close>) are new. \<open>Payment_create\<close> is \<open>None\<close> when the insert is
  refused.
\<close>

definition unused :: "(payment \<Rightarrow> string option) \<Rightarrow> ledger \<Rightarrow> string option \<Rightarrow> bool" where
  "unused column s v =
     (case v of None \<Rightarrow> True | Some x \<Rightarrow> find (\<lambda>q. column q = Some x) (payments s) = None)"

definition Payment_accepts :: "ledger \<Rightarrow> payment \<Rightarrow> bool" where
  "Payment_accepts s p =
     (1 \<le> amount p \<and> amount p \<le> 9999999999 \<and>
      paymentMethod p \<noteq> None \<and> paymentType p \<noteq> None \<and> processedBy p \<noteq> None \<and>
      Enrollment_findByPk s (enrollmentId p) \<noteq> None \<and>
      (case processedBy p of None \<Rightarrow> True | Some u \<Rightarrow> User_findByPk s u \<noteq> None) \<and>
      find (\<lambda>q. p_id q = p_id p) (payments s) = None \<and>
      unused transactionId s (transactionId p) \<and>
      unused receiptNumber s (receiptNumber p))"

definition Payment_create :: "ledger \<Rightarrow> payment \<Rightarrow> ledger option" where
  "Payment_create s p =
     (if Payment_accepts s p then Some (s\<lparr>payments := payments s @ [p]\<rparr>) else None)"

text \<open>
  \<^verbatim>\<open>Payment.sum('amount', { where: { enrollmentId, status: 'completed' } })\<close>. The
  SQL \<^verbatim>\<open>SUM\<close> over no row is \<^verbatim>\<open>NULL\<close>, and \<^verbatim>\<open>Payment.sum\<close> then answers \<^verbatim>\<open>null\<close>
  (\<open>None\<close>), not 0.
\<close>

definition completedPayments :: "ledger \<Rightarrow> uuid \<Rightarrow> payment list" where
  "completedPayments s k =
     filter (\<lambda>p. enrollmentId p = k \<and> p_status p = Completed) (payments s)"

definition Payment_sum_completed :: "ledger \<Rightarrow> uuid \<Rightarrow> money option" where
  "Payment_sum_completed s k =
     (if completedPayments s k = [] then None
      else Some (sum_list (map amount (completedPayments s k))))"

text \<open>\<^verbatim>\<open>instance.update(fields)\<close> and \<^verbatim>\<open>instance.save()\<close> write the changed fields to
  the row with the instance's primary key.\<close>

definition Enrollment_update :: "ledger \<Rightarrow> uuid \<Rightarrow> (enrollment \<Rightarrow> enrollment) \<Rightarrow> ledger" where
  "Enrollment_update s k f =
     s\<lparr>enrollments := map (\<lambda>e. if e_id e = k then f e else e) (enrollments s)\<rparr>"

definition Payment_update_byPk :: "ledger \<Rightarrow> uuid \<Rightarrow> (payment \<Rightarrow> payment) \<Rightarrow> ledger" where
  "Payment_update_byPk s k f =
     s\<lparr>payments := map (\<lambda>p. if p_id p = k then f p else p) (payments s)\<rparr>"

text \<open>\<^verbatim>\<open>Payment.update({ status: 'failed' }, { where: { externalPaymentId } })\<close>: a bulk
  update of every matching row.\<close>

definition Payment_update_external :: "ledger \<Rightarrow> string \<Rightarrow> (payment \<Rightarrow> payment) \<Rightarrow> ledger" where
  "Payment_update_external s x f =
     s\<lparr>payments := map (\<lambda>p. if externalPaymentId p = Some x then f p else p) (payments s)\<rparr>"

section \<open>The recompute block of the payment routes\<close>

text \<open>
  The block under the comment \<^verbatim>\<open>// Update enrollment payment status\<close> stands twice in
  the payment routes, after \<^verbatim>\<open>Payment.create\<close> in \<^verbatim>\<open>POST /\<close> and in the
  \<^verbatim>\<open>payment_intent.succeeded\<close> branch of the Stripe webhook:
  \<^verbatim>\<open>remainingAmount = enrollment.totalAmount - totalPaid\<close>, then \<^verbatim>\<open>'completed'\<close> when
  \<^verbatim>\<open>remainingAmount <= 0\<close>, else \<^verbatim>\<open>'partial'\<close> when \<^verbatim>\<open>totalPaid > 0\<close>, else
  \<^verbatim>\<open>'pending'\<close>; \<^verbatim>\<open>paidAmount: totalPaid\<close> is then written as it is, \<^verbatim>\<open>null\<close>
  included. In the subtraction and in the comparison JavaScript converts \<^verbatim>\<open>null\<close> to
  0 (\<open>toNumber\<close>). The arithmetic is on doubles: \<^verbatim>\<open>totalAmount\<close> and \<^verbatim>\<open>totalPaid\<close>
  are the doubles nearest to two amounts of at most ten digits, distinct amounts give
  distinct doubles in the same order, so the sign of the one rounded difference is the
  sign of the exact difference, and the comparisons with 0 are as on cents.
\<close>

definition toNumber :: "money option \<Rightarrow> money" where
  "toNumber v = (case v of None \<Rightarrow> 0 | Some x \<Rightarrow> x)"

definition paymentStatusOf :: "money \<Rightarrow> money option \<Rightarrow> payment_progress" where
  "paymentStatusOf totalAmt totalPaid =
     (let remainingAmount = totalAmt - toNumber totalPaid in
      if remainingAmount \<le> 0 then PsCompleted
      else if toNumber totalPaid > 0 then PsPartial
      else PsPending)"

definition recompute :: "time \<Rightarrow> enrollment \<Rightarrow> ledger \<Rightarrow> ledger" where
  "recompute t enrollment s =
     (let totalPaid = Payment_sum_completed s (e_id enrollment) in
      Enrollment_update s (e_id enrollment)
        (\<lambda>e. e\<lparr>paidAmount := totalPaid,
               paymentStatus := paymentStatusOf (totalAmount enrollment) totalPaid,
               lastPaymentDate := Some t\<rparr>))"

text \<open>The same block with its two awaited calls; \<open>Inl\<close> is the ledger at the moment an
  exception leaves the block.\<close>

definition updateEnrollmentPaymentStatus :: "env \<Rightarrow> enrollment \<Rightarrow> ledger \<Rightarrow> ledger + ledger" where
  "updateEnrollmentPaymentStatus env enrollment s =
     (if throws env PaymentSum then Inl s
      else if throws env EnrollmentUpdate then Inl s
      else Inr (recompute (now env) enrollment s))"

text \<open>
  The instance methods of the \<^verbatim>\<open>Enrollment\<close> model:
  \<^verbatim>\<open>this.totalAmount - this.paidAmount - this.discountAmount\<close> and
  \<^verbatim>\<open>this.getRemainingAmount() <= 0\<close>. The two subtractions are on doubles and the
  second one can leave a rounding error (2500.00 - 2400.10 - 99.90 is 8.5e-14 in
  doubles, not 0). When the three amounts are whole units every intermediate value is an
  integer that a double holds exactly, and the result is the exact one; for other amounts
  the model gives no value (\<open>None\<close>).
\<close>

definition wholeUnits :: "enrollment \<Rightarrow> bool" where
  "wholeUnits e =
     (totalAmount e mod 100 = 0 \<and> toNumber (paidAmount e) mod 100 = 0 \<and>
      discountAmount e mod 100 = 0)"

definition getRemainingAmount :: "enrollment \<Rightarrow> money option" where
  "getRemainingAmount e =
     (if wholeUnits e then Some (totalAmount e - toNumber (paidAmount e) - discountAmount e)
      else None)"

definition isFullyPaid :: "enrollment \<Rightarrow> bool option" where
  "isFullyPaid e = map_option (\<lambda>remaining. remaining \<le> 0) (getRemainingAmount e)"

text \<open>The specification's side of the invariant, for comparison with what the code
  stores: the sum of the amounts of the enrollment's completed payments, which is 0 when
  there is none.\<close>

definition spec_paidAmount :: "ledger \<Rightarrow> uuid \<Rightarrow> money" where
  "spec_paidAmount s k = sum_list (map amount (completedPayments s k))"

section \<open>Payment routes\<close>

subsection \<open>\<^verbatim>\<open>POST /\<close>: create a payment (admin)\<close>

text \<open>
  The body is spread into \<^verbatim>\<open>Payment.create({ ...paymentData, transactionId,
  receiptNumber, processedBy })\<close>, so a \<^verbatim>\<open>status\<close> or an \<^verbatim>\<open>externalPaymentId\<close> in the
  body reaches the row; without a \<^verbatim>\<open>status\<close> the column default \<^verbatim>\<open>'pending'\<close>
  applies. \<^verbatim>\<open>cp_userId\<close> is \<^verbatim>\<open>req.user.id\<close>. \<open>manualPayment\<close> is the object passed
  to \<^verbatim>\<open>Payment.create\<close>, completed by the column defaults.
\<close>

record payment_request =
  cp_enrollmentId :: uuid
  cp_amount :: money
  cp_currency :: string
  cp_paymentMethod :: payment_method
  cp_paymentType :: payment_type
  cp_status :: "payment_status option"
  cp_externalPaymentId :: "string option"
  cp_userId :: uuid

definition manualPayment :: "env \<Rightarrow> payment_request \<Rightarrow> payment" where
  "manualPayment env paymentData =
     \<lparr>p_id = newId env,
      enrollmentId = cp_enrollmentId paymentData,
      amount = cp_amount paymentData,
      currency = cp_currency paymentData,
      paymentMethod = Some (cp_paymentMethod paymentData),
      paymentType = Some (cp_paymentType paymentData),
      p_status = (case cp_status paymentData of None \<Rightarrow> Pending | Some st \<Rightarrow> st),
      transactionId = Some (txn env),
      externalPaymentId = cp_externalPaymentId paymentData,
      receiptNumber = (if cp_paymentMethod paymentData = Stripe then Some (rcp env) else None),
      processedBy = Some (cp_userId paymentData),
      paymentDate = now env,
      refundAmount = 0,
      refundReason = None,
      refundedBy = None,
      refundedAt = None,
      stripeRefundId = None\<rparr>"

definition createPayment :: "env \<Rightarrow> payment_request \<Rightarrow> ledger \<Rightarrow> response \<times> ledger" where
  "createPayment env paymentData s =
     (if throws env EnrollmentFindByPk then (Response 500 ''Failed to create payment'', s)
      else case Enrollment_findByPk s (cp_enrollmentId paymentData) of
        None \<Rightarrow> (Response 404 ''Enrollment not found'', s)
      | Some enrollment \<Rightarrow>
          if e_status enrollment = EnrActive then
            (if throws env PaymentCreate then (Response 500 ''Failed to create payment'', s)
             else case Payment_create s (manualPayment env paymentData) of
               None \<Rightarrow> (Response 500 ''Failed to create payment'', s)
             | Some s1 \<Rightarrow>
                 (case updateEnrollmentPaymentStatus env enrollment s1 of
                    Inl s2 \<Rightarrow> (Response 500 ''Failed to create payment'', s2)
                  | Inr s2 \<Rightarrow> (Response 201 ''Payment created successfully'', s2)))
          else (Response 400 ''Enrollment not active'', s))"

subsection \<open>\<^verbatim>\<open>POST /stripe/webhook\<close>\<close>

text \<open>
  \<^verbatim>\<open>event.data.object\<close> of a payment-intent event. \<^verbatim>\<open>pi_currencyUpper\<close> is the value
  of \<^verbatim>\<open>paymentIntent.currency.toUpperCase()\<close>, \<^verbatim>\<open>pi_enrollmentId\<close> is
  \<^verbatim>\<open>paymentIntent.metadata.enrollmentId\<close>, absent when the metadata has no such key;
  \<^verbatim>\<open>Enrollment.findByPk(undefined)\<close> answers \<^verbatim>\<open>null\<close> without a query.
  \<open>stripePayment\<close> is the object passed to \<^verbatim>\<open>Payment.create\<close>.
\<close>

record stripe_event =
  ev_type :: string
  pi_id :: string
  pi_amount :: money
  pi_currencyUpper :: string
  pi_enrollmentId :: "uuid option"

definition stripePayment :: "env \<Rightarrow> stripe_event \<Rightarrow> uuid \<Rightarrow> enrollment \<Rightarrow> payment" where
  "stripePayment env paymentIntent enrollmentId' enrollment =
     \<lparr>p_id = newId env,
      enrollmentId = enrollmentId',
      amount = pi_amount paymentIntent,
      currency = pi_currencyUpper paymentIntent,
      paymentMethod = Some Stripe,
      paymentType = Some Partial,
      p_status = Completed,
      transactionId = Some (txn env),
      externalPaymentId = Some (pi_id paymentIntent),
      receiptNumber = Some (rcp env),
      processedBy = Some (teacherId enrollment),
      paymentDate = now env,
      refundAmount = 0,
      refundReason = None,
      refundedBy = None,
      refundedAt = None,
      stripeRefundId = None\<rparr>"

definition stripeSucceeded :: "env \<Rightarrow> stripe_event \<Rightarrow> ledger \<Rightarrow> ledger + ledger" where
  "stripeSucceeded env paymentIntent s =
     (if throws env PaymentFindOne then Inl s
      else case Payment_findOne_external s (pi_id paymentIntent) of
        Some payment \<Rightarrow> Inr s
      | None \<Rightarrow>
          (case pi_enrollmentId paymentIntent of
             None \<Rightarrow> Inr s
           | Some enrollmentId' \<Rightarrow>
               if throws env EnrollmentFindByPk then Inl s
               else (case Enrollment_findByPk s enrollmentId' of
                  None \<Rightarrow> Inr s
                | Some enrollment \<Rightarrow>
                    if throws env PaymentCreate then Inl s
                    else (case Payment_create s
                                 (stripePayment env paymentIntent enrollmentId' enrollment) of
                       None \<Rightarrow> Inl s
                     | Some s1 \<Rightarrow> updateEnrollmentPaymentStatus env enrollment s1))))"

definition stripeFailed :: "env \<Rightarrow> stripe_event \<Rightarrow> ledger \<Rightarrow> ledger + ledger" where
  "stripeFailed env failedPaymentIntent s =
     (if throws env PaymentUpdate then Inl s
      else Inr (Payment_update_external s (pi_id failedPaymentIntent) (\<lambda>p. p\<lparr>p_status := Failed\<rparr>)))"

text \<open>
  The first argument is the outcome of \<^verbatim>\<open>stripe.webhooks.constructEvent(req.body, sig,
  STRIPE_WEBHOOK_SECRET)\<close>: \<open>Inl\<close> the message of the error it throws when the signature
  does not verify, \<open>Inr\<close> the verified event.
\<close>

definition stripeWebhook :: "env \<Rightarrow> string + stripe_event \<Rightarrow> ledger \<Rightarrow> response \<times> ledger" where
  "stripeWebhook env constructEvent s =
     (case constructEvent of
        Inl err \<Rightarrow> (Response 400 (''Webhook Error: '' @ err), s)
      | Inr event \<Rightarrow>
          (case (if ev_type event = ''payment_intent.succeeded'' then stripeSucceeded env event s
                 else if ev_type event = ''payment_intent.payment_failed'' then stripeFailed env event s
                 else Inr s) of
             Inl s' \<Rightarrow> (Response 500 ''Webhook processing failed'', s')
           | Inr s' \<Rightarrow> (Response 200 ''received'', s')))"

subsection \<open>\<^verbatim>\<open>POST /:id/refund\<close> (admin)\<close>

text \<open>
  The route has no validator, so \<^verbatim>\<open>refundAmount\<close> is whatever JSON value the body holds
  under that key: a number (held in cents, so a number of at most two decimals), a string,
  or nothing. A string comes with the \<^verbatim>\<open>DECIMAL(10, 2)\<close> that the store reads from
  the text, \<open>None\<close> when the store refuses the text.
\<close>

datatype json_amount = JNumber money | JString string "money option" | JAbsent

text \<open>\<^verbatim>\<open>payment.amount\<close> is read from a \<^verbatim>\<open>DECIMAL\<close> column and is a string with two
  decimals, as \<^verbatim>\<open>'1000.00'\<close>.\<close>

definition digit :: "nat \<Rightarrow> char" where
  "digit d = ''0123456789'' ! d"

fun digits :: "nat \<Rightarrow> string" where
  "digits n = (if n < 10 then [digit n] else digits (n div 10) @ [digit (n mod 10)])"

declare digits.simps [simp del]

definition decimalString :: "money \<Rightarrow> string" where
  "decimalString a =
     (if a < 0 then ''-'' else []) @ digits (nat \<bar>a\<bar> div 100) @ ''.'' @
     [digit (nat \<bar>a\<bar> mod 100 div 10), digit (nat \<bar>a\<bar> mod 10)]"

text \<open>\<^verbatim>\<open>a < b\<close> on two JavaScript strings compares them code unit by code unit; a proper
  prefix is the smaller one.\<close>

primrec jsLess :: "string \<Rightarrow> string \<Rightarrow> bool" where
  "jsLess [] b = (b \<noteq> [])"
| "jsLess (x # xs) b =
     (case b of
        [] \<Rightarrow> False
      | y # ys \<Rightarrow> (of_char x :: nat) < of_char y \<or> ((of_char x :: nat) = of_char y \<and> jsLess xs ys))"

text \<open>
  \<^verbatim>\<open>refundAmount > payment.amount\<close>: a number is compared with the number the string
  \<^verbatim>\<open>payment.amount\<close> reads as; two strings are compared as strings; \<^verbatim>\<open>undefined\<close> is
  greater than nothing.
\<close>

definition exceeds :: "json_amount \<Rightarrow> money \<Rightarrow> bool" where
  "exceeds v amt =
     (case v of
        JNumber n \<Rightarrow> n > amt
      | JString t st \<Rightarrow> jsLess (decimalString amt) t
      | JAbsent \<Rightarrow> False)"

text \<open>
  What \<^verbatim>\<open>payment.update({ ..., refundAmount, ... })\<close> writes to the column, given the
  value the column holds: \<^verbatim>\<open>update\<close> leaves out a field that is \<^verbatim>\<open>undefined\<close>;
  \<open>None\<close> when the store refuses the value (a text it cannot read, a number of more than
  ten digits) and the update throws.
\<close>

definition refundColumn :: "json_amount \<Rightarrow> money \<Rightarrow> money option" where
  "refundColumn v old =
     (case v of
        JNumber n \<Rightarrow> (if \<bar>n\<bar> \<le> 9999999999 then Some n else None)
      | JString t st \<Rightarrow> st
      | JAbsent \<Rightarrow> Some old)"

text \<open>\<^verbatim>\<open>rf_gatewayRefundId\<close> is the \<^verbatim>\<open>refund.id\<close> that \<^verbatim>\<open>stripe.refunds.create\<close> answers
  with; \<^verbatim>\<open>rf_userId\<close> is \<^verbatim>\<open>req.user.id\<close>.\<close>

record refund_request =
  rf_id :: uuid
  rf_refundAmount :: json_amount
  rf_refundReason :: string
  rf_userId :: uuid
  rf_gatewayRefundId :: string

definition refund :: "env \<Rightarrow> refund_request \<Rightarrow> ledger \<Rightarrow> response \<times> ledger" where
  "refund env req s =
     (if throws env PaymentFindByPk then (Response 500 ''Failed to process refund'', s)
      else case Payment_findByPk s (rf_id req) of
        None \<Rightarrow> (Response 404 ''Payment not found'', s)
      | Some payment \<Rightarrow>
          if p_status payment = Completed then
            (if exceeds (rf_refundAmount req) (amount payment)
             then (Response 400 ''Invalid refund amount'', s)
             else if paymentMethod payment = Some Stripe \<and> truthy (externalPaymentId payment) then
               (if throws env GatewayCall then (Response 500 ''Refund failed'', s)
                else if throws env PaymentUpdate then (Response 500 ''Refund failed'', s)
                else case refundColumn (rf_refundAmount req) (refundAmount payment) of
                  None \<Rightarrow> (Response 500 ''Refund failed'', s)
                | Some v \<Rightarrow>
                    (Response 200 ''Refund processed successfully'',
                     Payment_update_byPk s (p_id payment)
                       (\<lambda>p. p\<lparr>p_status := Refunded,
                              refundAmount := v,
                              refundReason := Some (rf_refundReason req),
                              refundedBy := Some (rf_userId req),
                              refundedAt := Some (now env),
                              stripeRefundId := Some (rf_gatewayRefundId req)\<rparr>)))
             else
               (if throws env PaymentUpdate then (Response 500 ''Failed to process refund'', s)
                else case refundColumn (rf_refundAmount req) (refundAmount payment) of
                  None \<Rightarrow> (Response 500 ''Failed to process refund'', s)
                | Some v \<Rightarrow>
                    (Response 200 ''Refund processed successfully'',
                     Payment_update_byPk s (p_id payment)
                       (\<lambda>p. p\<lparr>p_status := Refunded,
                              refundAmount := v,
                              refundReason := Some (rf_refundReason req),
                              refundedBy := Some (rf_userId req),
                              refundedAt := Some (now env)\<rparr>))))
          else (Response 400 ''Payment not completed'', s))"

section \<open>Conekta controller\<close>

text \<open>
  \<^verbatim>\<open>object_id\<close> is \<^verbatim>\<open>event.data.object.id\<close> and \<^verbatim>\<open>object_order_id\<close> is
  \<^verbatim>\<open>event.data.object.order_id\<close>. Each of the three event handlers has a
  \<^verbatim>\<open>try { ... } catch\<close> of its own that logs the error and returns, so an exception
  inside ends the handler with the ledger as it is at that moment.
\<close>

record conekta_event =
  ce_type :: string
  object_id :: string
  object_order_id :: string

text \<open>\<^verbatim>\<open>handleOrderPaid\<close> also assigns \<^verbatim>\<open>payment.paidDate\<close>, which is no column of
  the model, so \<^verbatim>\<open>payment.save()\<close> writes the status only. After the save the handler
  loads the enrollment and sends the confirmation e-mail; neither writes to the ledger,
  and their exceptions are caught with the rest.\<close>

definition handleOrderPaid :: "env \<Rightarrow> conekta_event \<Rightarrow> ledger \<Rightarrow> ledger" where
  "handleOrderPaid env event s =
     (if throws env PaymentFindOne then s
      else case Payment_findOne_transaction s (object_id event) of
        None \<Rightarrow> s
      | Some payment \<Rightarrow>
          if throws env PaymentSave then s
          else Payment_update_byPk s (p_id payment) (\<lambda>p. p\<lparr>p_status := Completed\<rparr>))"

definition handleOrderExpired :: "env \<Rightarrow> conekta_event \<Rightarrow> ledger \<Rightarrow> ledger" where
  "handleOrderExpired env event s =
     (if throws env PaymentFindOne then s
      else case Payment_findOne_transaction s (object_id event) of
        None \<Rightarrow> s
      | Some payment \<Rightarrow>
          if throws env PaymentSave then s
          else Payment_update_byPk s (p_id payment) (\<lambda>p. p\<lparr>p_status := Failed\<rparr>))"

definition handleChargeFailed :: "env \<Rightarrow> conekta_event \<Rightarrow> ledger \<Rightarrow> ledger" where
  "handleChargeFailed env event s =
     (if throws env PaymentFindOne then s
      else case Payment_findOne_transaction s (object_order_id event) of
        None \<Rightarrow> s
      | Some payment \<Rightarrow>
          if throws env PaymentSave then s
          else Payment_update_byPk s (p_id payment) (\<lambda>p. p\<lparr>p_status := Failed\<rparr>))"

text \<open>\<^verbatim>\<open>signature\<close> is the request header \<^verbatim>\<open>conekta-signature\<close>. The handler tests
  \<^verbatim>\<open>!signature\<close> and nothing else about it. With a parsed body nothing outside the
  three event handlers throws, so the \<^verbatim>\<open>catch\<close> of \<^verbatim>\<open>webhook\<close> itself (500) is not
  reached.\<close>

definition webhook :: "env \<Rightarrow> string option \<Rightarrow> conekta_event \<Rightarrow> ledger \<Rightarrow> response \<times> ledger" where
  "webhook env signature event s =
     (if truthy signature then
        (Response 200 ''received'',
         (if ce_type event = ''order.paid'' then handleOrderPaid env event s
          else if ce_type event = ''order.expired'' then handleOrderExpired env event s
          else if ce_type event = ''charge.failed'' then handleChargeFailed env event s
          else s))
      else (Response 400 ''No signature provided'', s))"

text \<open>\<^verbatim>\<open>ConektaController.refundPayment\<close>: the body carries a reason only, the refund
  at the processor is \<^verbatim>\<open>Conekta.Charge.find\<close> followed by \<^verbatim>\<open>charge.refund()\<close>.\<close>

definition refundPayment :: "env \<Rightarrow> uuid \<Rightarrow> ledger \<Rightarrow> response \<times> ledger" where
  "refundPayment env paymentId s =
     (if throws env PaymentFindByPk then (Response 500 ''Error processing refund'', s)
      else case Payment_findByPk s paymentId of
        None \<Rightarrow> (Response 404 ''Payment not found'', s)
      | Some payment \<Rightarrow>
          if p_status payment = Completed then
            (if throws env GatewayCall then (Response 500 ''Error processing refund'', s)
             else if throws env PaymentSave then (Response 500 ''Error processing refund'', s)
             else (Response 200 ''Payment refunded successfully'',
                   Payment_update_byPk s (p_id payment) (\<lambda>p. p\<lparr>p_status := Refunded\<rparr>)))
          else (Response 400 ''Payment cannot be refunded'', s))"

text \<open>
  \<^verbatim>\<open>ConektaController.createOrder\<close>, for a body that carries the objects
  \<^verbatim>\<open>customerInfo\<close> and \<^verbatim>\<open>paymentMethod\<close> that the handler reads. The enrollment is
  loaded with its course (\<^verbatim>\<open>include\<close>); \<^verbatim>\<open>co_orderId\<close> and \<^verbatim>\<open>co_paid\<close> are
  what \<^verbatim>\<open>Conekta.Order.create\<close> answers: \<^verbatim>\<open>order.id\<close> and whether \<^verbatim>\<open>order.charges.data[0].status === 'paid'\<close>. The
  e-mail is sent only for a paid charge. \<open>orderPayment\<close> is the object passed to
  \<^verbatim>\<open>Payment.create\<close>: of the model's columns it names \<^verbatim>\<open>enrollmentId\<close>,
  \<^verbatim>\<open>amount\<close>, \<^verbatim>\<open>currency\<close>, \<^verbatim>\<open>status\<close> and \<^verbatim>\<open>transactionId\<close> (and
  \<^verbatim>\<open>description\<close>, \<^verbatim>\<open>dueDate\<close>); the payment method goes under the key \<^verbatim>\<open>method\<close>,
  which is no column, and \<^verbatim>\<open>paymentMethod\<close>, \<^verbatim>\<open>paymentType\<close> and \<^verbatim>\<open>processedBy\<close>
  are left out. The \<^verbatim>\<open>catch\<close> answers 500 with
  \<^verbatim>\<open>error.message || 'Payment processing failed'\<close>.
\<close>

record order_request =
  co_enrollmentId :: uuid
  co_orderId :: string
  co_paid :: bool

definition orderPayment :: "env \<Rightarrow> order_request \<Rightarrow> course \<Rightarrow> payment" where
  "orderPayment env req course =
     \<lparr>p_id = newId env,
      enrollmentId = co_enrollmentId req,
      amount = price course,
      currency = ''MXN'',
      paymentMethod = None,
      paymentType = None,
      p_status = (if co_paid req then Completed else Pending),
      transactionId = Some (co_orderId req),
      externalPaymentId = None,
      receiptNumber = None,
      processedBy = None,
      paymentDate = now env,
      refundAmount = 0,
      refundReason = None,
      refundedBy = None,
      refundedAt = None,
      stripeRefundId = None\<rparr>"

definition processingFailed :: "env \<Rightarrow> response" where
  "processingFailed env =
     Response 500 (if errorMessage env = [] then ''Payment processing failed''
                   else errorMessage env)"

definition createOrder :: "env \<Rightarrow> order_request \<Rightarrow> ledger \<Rightarrow> response \<times> ledger" where
  "createOrder env req s =
     (if throws env EnrollmentFindByPk then (processingFailed env, s)
      else case Enrollment_findByPk s (co_enrollmentId req) of
        None \<Rightarrow> (Response 404 ''Enrollment not found'', s)
      | Some enrollment \<Rightarrow>
          (case Course_findByPk s (courseId enrollment) of
             None \<Rightarrow> (processingFailed env, s)
           | Some course \<Rightarrow>
               if throws env GatewayCall then (processingFailed env, s)
               else if throws env PaymentCreate then (processingFailed env, s)
               else (case Payment_create s (orderPayment env req course) of
                  None \<Rightarrow> (processingFailed env, s)
                | Some s1 \<Rightarrow>
                    if co_paid req \<and> throws env SendEmail
                    then (processingFailed env, s1)
                    else (Response 200 ''Payment processed successfully'', s1))))"

section \<open>Enrollment routes\<close>

subsection \<open>\<^verbatim>\<open>POST /\<close>: create an enrollment (admin)\<close>

text \<open>The validated fields of the body; the columns the body leaves out take their
  defaults (\<^verbatim>\<open>status\<close> \<^verbatim>\<open>'pending'\<close>, \<^verbatim>\<open>paymentStatus\<close> \<^verbatim>\<open>'pending'\<close>, amounts 0).
  The new row's UUID is \<^verbatim>\<open>newId\<close> of the environment.\<close>

record enrollment_request =
  ce_studentId :: uuid
  ce_courseId :: uuid
  ce_teacherId :: uuid
  ce_startDate :: time
  ce_endDate :: time
  ce_totalAmount :: money

text \<open>
  \<^verbatim>\<open>Course.prototype.getCurrentEnrollmentCount\<close> begins with
  \<^verbatim>\<open>const { Enrollment } = require('./Enrollment')\<close>. The module
  \<^verbatim>\<open>./Enrollment\<close> ends with \<^verbatim>\<open>module.exports = Enrollment\<close>: what \<^verbatim>\<open>require\<close>
  returns is the model itself (\<^verbatim>\<open>models/index.js\<close> takes it without destructuring), and
  the model has no property named \<^verbatim>\<open>Enrollment\<close>. The destructuring binds
  \<^verbatim>\<open>undefined\<close>, and \<^verbatim>\<open>Enrollment.count(...)\<close> throws a \<^verbatim>\<open>TypeError\<close> before any
  query is made. \<open>destructuredEnrollment\<close> is that binding: \<open>None\<close> for
  \<^verbatim>\<open>undefined\<close>, otherwise the \<^verbatim>\<open>count\<close> of active enrollments of a course that the
  method would await.
\<close>

datatype js_error = TypeError

definition destructuredEnrollment :: "(ledger \<Rightarrow> uuid \<Rightarrow> int) option" where
  "destructuredEnrollment = None"

definition getCurrentEnrollmentCount :: "ledger \<Rightarrow> course \<Rightarrow> js_error + int" where
  "getCurrentEnrollmentCount s c =
     (case destructuredEnrollment of
        None \<Rightarrow> Inl TypeError
      | Some count \<Rightarrow> Inr (count s (c_id c)))"

text \<open>\<^verbatim>\<open>Course.prototype.isFull\<close>: \<^verbatim>\<open>enrollmentCount >= this.maxStudents\<close>, once the
  count is there.\<close>

definition isFull :: "ledger \<Rightarrow> course \<Rightarrow> js_error + bool" where
  "isFull s c =
     (case getCurrentEnrollmentCount s c of
        Inl err \<Rightarrow> Inl err
      | Inr enrollmentCount \<Rightarrow> Inr (enrollmentCount \<ge> maxStudents c))"

text \<open>\<^verbatim>\<open>Enrollment.findOne({ where: { studentId, courseId, status: ['pending',
  'active'] } })\<close>.\<close>

definition existingEnrollment :: "ledger \<Rightarrow> uuid \<Rightarrow> uuid \<Rightarrow> enrollment option" where
  "existingEnrollment s sid cid =
     find (\<lambda>e. studentId e = sid \<and> courseId e = cid \<and> e_status e \<in> {EnrPending, EnrActive})
       (enrollments s)"

text \<open>The \<^verbatim>\<open>Enrollment\<close> model declares a unique index on
  \<^verbatim>\<open>(studentId, courseId)\<close>: an insert of a second row for the pair is refused by the
  store, whatever the status of the first, and \<^verbatim>\<open>Enrollment.create\<close> throws.\<close>

definition violatesUniqueIndex :: "ledger \<Rightarrow> uuid \<Rightarrow> uuid \<Rightarrow> bool" where
  "violatesUniqueIndex s sid cid =
     (find (\<lambda>e. studentId e = sid \<and> courseId e = cid) (enrollments s) \<noteq> None)"

text \<open>The row that \<^verbatim>\<open>Enrollment.create(enrollmentData)\<close> inserts.\<close>

definition newEnrollment :: "env \<Rightarrow> enrollment_request \<Rightarrow> enrollment" where
  "newEnrollment env enrollmentData =
     \<lparr>e_id = newId env,
      studentId = ce_studentId enrollmentData,
      courseId = ce_courseId enrollmentData,
      teacherId = ce_teacherId enrollmentData,
      e_status = EnrPending,
      startDate = ce_startDate enrollmentData,
      endDate = ce_endDate enrollmentData,
      paymentStatus = PsPending,
      totalAmount = ce_totalAmount enrollmentData,
      paidAmount = Some 0,
      discountAmount = 0,
      lastPaymentDate = None\<rparr>"

text \<open>The handler. The three \<^verbatim>\<open>findByPk\<close> run together (\<^verbatim>\<open>Promise.all\<close>) before the
  first test; \<^verbatim>\<open>await course.isFull()\<close> rethrows what \<^verbatim>\<open>isFull\<close> throws, into the
  handler's \<^verbatim>\<open>catch\<close>.\<close>

definition createEnrollment :: "env \<Rightarrow> enrollment_request \<Rightarrow> ledger \<Rightarrow> response \<times> ledger" where
  "createEnrollment env enrollmentData s =
     (if throws env UserFindByPk then (Response 500 ''Failed to create enrollment'', s)
      else if throws env CourseFindByPk then (Response 500 ''Failed to create enrollment'', s)
      else case User_findByPk s (ce_studentId enrollmentData) of
        None \<Rightarrow> (Response 404 ''Student not found'', s)
      | Some student \<Rightarrow>
          if u_role student = Student then
            (case Course_findByPk s (ce_courseId enrollmentData) of
               None \<Rightarrow> (Response 404 ''Course not found'', s)
             | Some course \<Rightarrow>
                 (case User_findByPk s (ce_teacherId enrollmentData) of
                    None \<Rightarrow> (Response 404 ''Teacher not found'', s)
                  | Some teacher \<Rightarrow>
                      if u_role teacher = Teacher then
                        (if isActive course then
                           (case isFull s course of
                              Inl err \<Rightarrow> (Response 500 ''Failed to create enrollment'', s)
                            | Inr full \<Rightarrow>
                                if full then (Response 400 ''Course is full'', s)
                                else if throws env EnrollmentFindOne
                                then (Response 500 ''Failed to create enrollment'', s)
                                else (case existingEnrollment s (ce_studentId enrollmentData)
                                             (ce_courseId enrollmentData) of
                                   Some existing \<Rightarrow> (Response 409 ''Already enrolled'', s)
                                 | None \<Rightarrow>
                                     if ce_startDate enrollmentData \<ge> ce_endDate enrollmentData
                                     then (Response 400 ''Invalid date range'', s)
                                     else if throws env EnrollmentCreate
                                     then (Response 500 ''Failed to create enrollment'', s)
                                     else if violatesUniqueIndex s (ce_studentId enrollmentData)
                                               (ce_courseId enrollmentData)
                                     then (Response 500 ''Failed to create enrollment'', s)
                                     else (Response 201 ''Enrollment created successfully'',
                                           s\<lparr>enrollments := enrollments s @
                                               [newEnrollment env enrollmentData]\<rparr>)))
                         else (Response 400 ''Course not available'', s))
                      else (Response 404 ''Teacher not found'', s)))
          else (Response 404 ''Student not found'', s))"

section \<open>Concrete ledgers and requests\<close>

text \<open>
  One student, one teacher, one admin, one course and one active enrollment of 1500.00
  with nothing paid; amounts are in cents. \<open>quiet\<close> is a request during which no call throws.
\<close>

definition student1 :: user where
  "student1 = \<lparr>u_id = ''u-student'', u_role = Student\<rparr>"

definition teacher1 :: user where
  "teacher1 = \<lparr>u_id = ''u-teacher'', u_role = Teacher\<rparr>"

definition admin1 :: user where
  "admin1 = \<lparr>u_id = ''u-admin'', u_role = Admin\<rparr>"

definition course1 :: course where
  "course1 = \<lparr>c_id = ''c1'', isActive = True, maxStudents = 10, price = 150000\<rparr>"

definition enrollment1 :: enrollment where
  "enrollment1 =
     \<lparr>e_id = ''e1'', studentId = ''u-student'', courseId = ''c1'', teacherId = ''u-teacher'',
      e_status = EnrActive, startDate = 1000, endDate = 2000, paymentStatus = PsPending,
      totalAmount = 150000, paidAmount = Some 0, discountAmount = 0, lastPaymentDate = None\<rparr>"

definition ledger0 :: ledger where
  "ledger0 = \<lparr>users = [student1, teacher1, admin1], courses = [course1],
              enrollments = [enrollment1], payments = []\<rparr>"

definition quiet :: env where
  "quiet = \<lparr>now = 5000, throws = (\<lambda>c. False), newId = ''p1'',
            txn = ''TXN-5000-k3x'', rcp = ''RCP-5000-k3x'', errorMessage = []\<rparr>"

text \<open>An admin records a completed cash payment of 1000.00 on the enrollment; the ledger
  once it is recorded, and the enrollment row it holds.\<close>

definition cashPayment :: payment_request where
  "cashPayment =
     \<lparr>cp_enrollmentId = ''e1'', cp_amount = 100000, cp_currency = ''MXN'',
      cp_paymentMethod = Cash, cp_paymentType = Partial, cp_status = Some Completed,
      cp_externalPaymentId = None, cp_userId = ''u-admin''\<rparr>"

definition paidLedger :: ledger where
  "paidLedger = snd (createPayment quiet cashPayment ledger0)"

definition paidEnrollment :: enrollment where
  "paidEnrollment =
     enrollment1\<lparr>paymentStatus := PsPartial, paidAmount := Some 100000, lastPaymentDate := Some 5000\<rparr>"

definition refund400 :: refund_request where
  "refund400 =
     \<lparr>rf_id = ''p1'', rf_refundAmount = JNumber 40000, rf_refundReason = ''customer request'',
      rf_userId = ''u-admin'', rf_gatewayRefundId = ''re_1''\<rparr>"

text \<open>A later request, and the ledger at the two moments the recompute block starts: after
  the cash payment is inserted, and after the pending Stripe payment of the later request
  is inserted into the ledger the first request left.\<close>

definition later :: env where
  "later = \<lparr>now = 6000, throws = (\<lambda>c. False), newId = ''p2'',
            txn = ''TXN-6000-z9q'', rcp = ''RCP-6000-z9q'', errorMessage = []\<rparr>"

definition stripeIntent :: payment_request where
  "stripeIntent =
     cashPayment\<lparr>cp_amount := 50000, cp_paymentMethod := Stripe, cp_status := None,
       cp_externalPaymentId := Some ''pi_2''\<rparr>"

definition cashInserted :: ledger where
  "cashInserted = ledger0\<lparr>payments := [manualPayment quiet cashPayment]\<rparr>"

definition intentInserted :: ledger where
  "intentInserted =
     paidLedger\<lparr>payments := payments paidLedger @ [manualPayment later stripeIntent]\<rparr>"

text \<open>The same enrollment priced 1000.00 with a discount of 200.00; a completed payment
  of the 800.00 that remain, and its refund.\<close>

definition discountedLedger :: ledger where
  "discountedLedger =
     ledger0\<lparr>enrollments := [enrollment1\<lparr>totalAmount := 100000, discountAmount := 20000\<rparr>]\<rparr>"

definition payment800 :: payment_request where
  "payment800 = cashPayment\<lparr>cp_amount := 80000, cp_paymentType := Full\<rparr>"

definition refund800 :: refund_request where
  "refund800 = refund400\<lparr>rf_refundAmount := JNumber 80000\<rparr>"

definition discountedPaid :: ledger where
  "discountedPaid = snd (createPayment quiet payment800 discountedLedger)"

definition discountedRefunded :: ledger where
  "discountedRefunded = snd (refund quiet refund800 discountedPaid)"

text \<open>A pending charge of 1500.00 recorded under the processor's order id \<^verbatim>\<open>ord_1\<close>
  (a cash reference waiting for the customer), the \<^verbatim>\<open>order.paid\<close> notification for it,
  the ledger once the notification is processed with an arbitrary value in the signature
  header, and that ledger after the payment is refunded.\<close>

definition oxxoCharge :: payment where
  "oxxoCharge =
     \<lparr>p_id = ''p1'', enrollmentId = ''e1'', amount = 150000, currency = ''MXN'',
      paymentMethod = Some Conekta, paymentType = Some Full, p_status = Pending,
      transactionId = Some ''ord_1'', externalPaymentId = None,
      receiptNumber = None, processedBy = Some ''u-admin'', paymentDate = 4000,
      refundAmount = 0, refundReason = None, refundedBy = None, refundedAt = None,
      stripeRefundId = None\<rparr>"

definition oxxoLedger :: ledger where
  "oxxoLedger = ledger0\<lparr>payments := [oxxoCharge]\<rparr>"

definition orderPaid :: conekta_event where
  "orderPaid = \<lparr>ce_type = ''order.paid'', object_id = ''ord_1'', object_order_id = ''ord_1''\<rparr>"

definition confirmedLedger :: ledger where
  "confirmedLedger = snd (webhook quiet (Some ''forged'') orderPaid oxxoLedger)"

definition refundedLedger :: ledger where
  "refundedLedger = snd (refundPayment quiet ''p1'' confirmedLedger)"

text \<open>A Stripe payment recorded as pending under the external id \<^verbatim>\<open>pi_1\<close>, and the two
  payment-intent events for that id.\<close>

definition pendingIntent :: payment_request where
  "pendingIntent =
     \<lparr>cp_enrollmentId = ''e1'', cp_amount = 150000, cp_currency = ''MXN'',
      cp_paymentMethod = Stripe, cp_paymentType = Full, cp_status = None,
      cp_externalPaymentId = Some ''pi_1'', cp_userId = ''u-admin''\<rparr>"

definition pendingLedger :: ledger where
  "pendingLedger = snd (createPayment quiet pendingIntent ledger0)"

definition intentSucceeded :: stripe_event where
  "intentSucceeded =
     \<lparr>ev_type = ''payment_intent.succeeded'', pi_id = ''pi_1'', pi_amount = 150000,
      pi_currencyUpper = ''MXN'', pi_enrollmentId = Some ''e1''\<rparr>"

definition intentFailed :: stripe_event where
  "intentFailed = intentSucceeded\<lparr>ev_type := ''payment_intent.payment_failed''\<rparr>"

text \<open>The enrollment after it was cancelled, and after it was suspended; an order request
  for it; a second enrollment request for the same student and course.\<close>

definition cancelledLedger :: ledger where
  "cancelledLedger = ledger0\<lparr>enrollments := [enrollment1\<lparr>e_status := EnrCancelled\<rparr>]\<rparr>"

definition suspendedLedger :: ledger where
  "suspendedLedger = ledger0\<lparr>enrollments := [enrollment1\<lparr>e_status := EnrSuspended\<rparr>]\<rparr>"

definition order1 :: order_request where
  "order1 = \<lparr>co_enrollmentId = ''e1'', co_orderId = ''ord_7'', co_paid = True\<rparr>"

definition enrollAgain :: enrollment_request where
  "enrollAgain =
     \<lparr>ce_studentId = ''u-student'', ce_courseId = ''c1'', ce_teacherId = ''u-teacher'',
      ce_startDate = 3000, ce_endDate = 4000, ce_totalAmount = 150000\<rparr>"


section \<open>Facts about the data-access functions and the handlers\<close>

lemmas example_defs =
  student1_def teacher1_def admin1_def course1_def enrollment1_def ledger0_def quiet_def
  cashPayment_def paidLedger_def paidEnrollment_def refund400_def
  later_def stripeIntent_def cashInserted_def intentInserted_def
  discountedLedger_def payment800_def refund800_def discountedPaid_def discountedRefunded_def
  oxxoCharge_def oxxoLedger_def orderPaid_def confirmedLedger_def refundedLedger_def
  pendingIntent_def pendingLedger_def intentSucceeded_def intentFailed_def
  cancelledLedger_def suspendedLedger_def order1_def enrollAgain_def

lemmas store_defs =
  Enrollment_findByPk_def Payment_findByPk_def User_findByPk_def Course_findByPk_def
  Payment_findOne_external_def Payment_findOne_transaction_def Payment_create_def
  Payment_accepts_def unused_def completedPayments_def
  Payment_sum_completed_def Enrollment_update_def Payment_update_byPk_def
  Payment_update_external_def recompute_def paymentStatusOf_def toNumber_def
  updateEnrollmentPaymentStatus_def truthy_def
  manualPayment_def stripePayment_def orderPayment_def exceeds_def refundColumn_def

lemmas handler_defs =
  createPayment_def stripeWebhook_def stripeSucceeded_def stripeFailed_def refund_def
  webhook_def handleOrderPaid_def handleOrderExpired_def handleChargeFailed_def
  refundPayment_def createOrder_def

lemma payments_Enrollment_update: "payments (Enrollment_update s k f) = payments s"
  by (simp add: Enrollment_update_def)

lemma payments_recompute: "payments (recompute t e s) = payments s"
  by (simp add: recompute_def Let_def payments_Enrollment_update)

lemma find_map_key:
  assumes "\<And>x. key (g x) = key x"
  shows "find (\<lambda>x. key x = k) (map g xs) = map_option g (find (\<lambda>x. key x = k) xs)"
  using assms by (induction xs) auto

lemma Enrollment_findByPk_update:
  assumes "\<And>x. e_id (f x) = e_id x"
  shows "Enrollment_findByPk (Enrollment_update s k f) j =
         map_option (\<lambda>e. if e_id e = k then f e else e) (Enrollment_findByPk s j)"
  unfolding Enrollment_findByPk_def Enrollment_update_def
  using assms by (simp add: find_map_key)

lemma Enrollment_findByPk_id: "Enrollment_findByPk s k = Some e \<Longrightarrow> e_id e = k"
  by (auto simp: Enrollment_findByPk_def find_Some_iff)

lemma updateEnrollmentPaymentStatus_Inr:
  "updateEnrollmentPaymentStatus env e s = Inr s1 \<Longrightarrow> s1 = recompute (now env) e s"
  by (auto simp: updateEnrollmentPaymentStatus_def split: if_splits)

lemma isl_updateEnrollmentPaymentStatus:
  "isl (updateEnrollmentPaymentStatus env e s) =
     (throws env PaymentSum \<or> throws env EnrollmentUpdate)"
  by (simp add: updateEnrollmentPaymentStatus_def)

lemma enrollments_Payment_update_byPk:
  "enrollments (Payment_update_byPk s k f) = enrollments s"
  by (simp add: Payment_update_byPk_def)

lemma Payment_create_Some:
  "Payment_create s p = Some s1 \<Longrightarrow>
     Payment_accepts s p \<and> s1 = s\<lparr>payments := payments s @ [p]\<rparr>"
  by (auto simp: Payment_create_def split: if_splits)

text \<open>What the code's sum and the specification's sum have to do with each other.\<close>

lemma Payment_sum_completed_spec:
  "toNumber (Payment_sum_completed s k) = spec_paidAmount s k"
  by (simp add: Payment_sum_completed_def spec_paidAmount_def toNumber_def)

subsection \<open>Refunds write payment rows only\<close>

lemma enrollments_refund: "enrollments (snd (refund env rf s)) = enrollments s"
  by (simp add: refund_def enrollments_Payment_update_byPk split: option.splits)

lemma enrollments_refundPayment: "enrollments (snd (refundPayment env k s)) = enrollments s"
  by (simp add: refundPayment_def enrollments_Payment_update_byPk split: option.splits)

lemma refund_rejects_excess:
  assumes "\<not> throws env PaymentFindByPk" "Payment_findByPk s (rf_id rf) = Some p"
    "p_status p = Completed" "rf_refundAmount rf = JNumber n" "n > amount p"
  shows "refund env rf s = (Response 400 ''Invalid refund amount'', s)"
  using assms by (simp add: refund_def exceeds_def)

lemma refund_rejects_not_completed:
  assumes "\<not> throws env PaymentFindByPk" "Payment_findByPk s (rf_id rf) = Some p"
    "p_status p \<noteq> Completed"
  shows "refund env rf s = (Response 400 ''Payment not completed'', s)"
  using assms by (simp add: refund_def)

lemma refundPayment_rejects_not_completed:
  assumes "\<not> throws env PaymentFindByPk" "Payment_findByPk s k = Some p"
    "p_status p \<noteq> Completed"
  shows "refundPayment env k s = (Response 400 ''Payment cannot be refunded'', s)"
  using assms by (simp add: refundPayment_def)

text \<open>
  A \<^verbatim>\<open>refundAmount\<close> that is not a number is not compared as an amount. On the cash
  payment of 1000.00: the string \<^verbatim>\<open>'400'\<close> is greater than \<^verbatim>\<open>'1000.00'\<close> as a
  string and the refund is refused; the string \<^verbatim>\<open>'09999.00'\<close> is smaller and a refund
  of 9999.00 is recorded; a body without the key is accepted and leaves the column at 0.
\<close>

lemma decimalString_example: "decimalString 100000 = ''1000.00''"
  by (simp add: decimalString_def digits.simps digit_def)

lemma refund_compares_strings:
  "refund quiet (refund400\<lparr>rf_refundAmount := JString ''400'' (Some 40000)\<rparr>) paidLedger =
     (Response 400 ''Invalid refund amount'', paidLedger) \<and>
   fst (refund quiet (refund400\<lparr>rf_refundAmount := JString ''09999.00'' (Some 999900)\<rparr>)
          paidLedger) = Response 200 ''Refund processed successfully'' \<and>
   map refundAmount
     (payments (snd (refund quiet (refund400\<lparr>rf_refundAmount := JString ''09999.00'' (Some 999900)\<rparr>)
          paidLedger))) = [999900] \<and>
   fst (refund quiet (refund400\<lparr>rf_refundAmount := JAbsent\<rparr>) paidLedger) =
     Response 200 ''Refund processed successfully'' \<and>
   map refundAmount
     (payments (snd (refund quiet (refund400\<lparr>rf_refundAmount := JAbsent\<rparr>) paidLedger))) = [0]"
  by (simp add: example_defs createPayment_def refund_def store_defs decimalString_example)

subsection \<open>The Conekta webhook\<close>

lemma enrollments_webhook: "enrollments (snd (webhook env sig ev s)) = enrollments s"
  by (simp add: webhook_def handleOrderPaid_def handleOrderExpired_def handleChargeFailed_def
      enrollments_Payment_update_byPk split: option.splits)

lemma fst_webhook: "truthy sig \<Longrightarrow> fst (webhook env sig ev s) = Response 200 ''received''"
  by (simp add: webhook_def)

lemma webhook_ignores_signature_value:
  "a \<noteq> [] \<Longrightarrow> b \<noteq> [] \<Longrightarrow> webhook env (Some a) ev s = webhook env (Some b) ev s"
  by (simp add: webhook_def truthy_def)

subsection \<open>The Stripe webhook, delivered again\<close>

lemma Payment_update_external_failed_twice:
  "Payment_update_external (Payment_update_external s x (\<lambda>p. p\<lparr>p_status := Failed\<rparr>)) x
     (\<lambda>p. p\<lparr>p_status := Failed\<rparr>) =
   Payment_update_external s x (\<lambda>p. p\<lparr>p_status := Failed\<rparr>)"
  by (simp add: Payment_update_external_def)

lemma Payment_findOne_external_created:
  assumes "Payment_create s p = Some s1" "externalPaymentId p = Some x"
  shows "\<exists>q. Payment_findOne_external (recompute t e s1) x = Some q"
proof -
  have s1: "s1 = s\<lparr>payments := payments s @ [p]\<rparr>"
    using assms(1) by (simp add: Payment_create_Some)
  have "find (\<lambda>p. externalPaymentId p = Some x) (payments s @ [p]) \<noteq> None"
    using assms(2) by (auto simp: find_None_iff)
  then show ?thesis
    by (auto simp: Payment_findOne_external_def payments_recompute s1)
qed

lemma stripeSucceeded_found:
  "Payment_findOne_external s (pi_id ev) = Some q \<Longrightarrow>
   stripeSucceeded env ev s = (if throws env PaymentFindOne then Inl s else Inr s)"
  by (simp add: stripeSucceeded_def)

lemma externalPaymentId_stripePayment:
  "externalPaymentId (stripePayment env ev k e) = Some (pi_id ev)"
  by (simp add: stripePayment_def)

lemma stripeSucceeded_again:
  assumes "stripeSucceeded envA ev s = Inr s1"
  shows "stripeSucceeded envB ev s1 = Inl s1 \<or> stripeSucceeded envB ev s1 = Inr s1"
proof (cases "Payment_findOne_external s (pi_id ev)")
  case (Some q)
  with assms have "s1 = s" by (auto simp: stripeSucceeded_def split: if_splits)
  with Some show ?thesis by (simp add: stripeSucceeded_found)
next
  case None
  note nf = None
  show ?thesis
  proof (cases "pi_enrollmentId ev")
    case None
    with assms nf have "s1 = s" by (auto simp: stripeSucceeded_def split: if_splits)
    with None nf show ?thesis by (simp add: stripeSucceeded_def)
  next
    case (Some k)
    note k = Some
    show ?thesis
    proof (cases "Enrollment_findByPk s k")
      case None
      with assms nf k have "s1 = s" by (auto simp: stripeSucceeded_def split: if_splits)
      with None nf k show ?thesis by (simp add: stripeSucceeded_def)
    next
      case (Some e)
      with assms nf k obtain s0 where
        c: "Payment_create s (stripePayment envA ev k e) = Some s0" and
        u: "updateEnrollmentPaymentStatus envA e s0 = Inr s1"
        by (auto simp: stripeSucceeded_def split: if_splits option.splits)
      from u have "s1 = recompute (now envA) e s0"
        by (rule updateEnrollmentPaymentStatus_Inr)
      with Payment_findOne_external_created [OF c externalPaymentId_stripePayment]
      obtain q where "Payment_findOne_external s1 (pi_id ev) = Some q" by blast
      then show ?thesis by (simp add: stripeSucceeded_found)
    qed
  qed
qed

lemma stripeFailed_again:
  assumes "stripeFailed envA ev s = Inr s1"
  shows "stripeFailed envB ev s1 = Inl s1 \<or> stripeFailed envB ev s1 = Inr s1"
  using assms
  by (auto simp: stripeFailed_def Payment_update_external_failed_twice split: if_splits)

text \<open>Once the Stripe handler has acknowledged an event with 200, the same event
  delivered again, whatever throws during the second delivery, leaves the ledger as the
  first delivery left it.\<close>

lemma stripeWebhook_again:
  assumes "fst (stripeWebhook envA ce s) = Response 200 ''received''"
  shows "snd (stripeWebhook envB ce (snd (stripeWebhook envA ce s))) =
         snd (stripeWebhook envA ce s)"
proof (cases ce)
  case (Inl err)
  with assms show ?thesis by (simp add: stripeWebhook_def)
next
  case (Inr ev)
  consider (a) "ev_type ev = ''payment_intent.succeeded''"
    | (b) "ev_type ev \<noteq> ''payment_intent.succeeded''"
          "ev_type ev = ''payment_intent.payment_failed''"
    | (c) "ev_type ev \<noteq> ''payment_intent.succeeded''"
          "ev_type ev \<noteq> ''payment_intent.payment_failed''"
    by blast
  then show ?thesis
  proof cases
    case a
    from assms Inr a obtain s1 where s1: "stripeSucceeded envA ev s = Inr s1"
      by (auto simp: stripeWebhook_def split: sum.splits)
    from stripeSucceeded_again [OF s1, of envB] show ?thesis
      using Inr a s1 by (auto simp: stripeWebhook_def)
  next
    case b
    from assms Inr b obtain s1 where s1: "stripeFailed envA ev s = Inr s1"
      by (auto simp: stripeWebhook_def split: sum.splits)
    from stripeFailed_again [OF s1, of envB] show ?thesis
      using Inr b s1 by (auto simp: stripeWebhook_def)
  next
    case c
    with Inr show ?thesis by (simp add: stripeWebhook_def)
  qed
qed

subsection \<open>When the Stripe webhook ends in its \<^verbatim>\<open>catch\<close>\<close>

lemma isl_stripeSucceeded:
  "isl (stripeSucceeded env ev s) =
     (throws env PaymentFindOne \<or>
      (Payment_findOne_external s (pi_id ev) = None \<and>
       (case pi_enrollmentId ev of
          None \<Rightarrow> False
        | Some k \<Rightarrow>
            throws env EnrollmentFindByPk \<or>
            (case Enrollment_findByPk s k of
               None \<Rightarrow> False
             | Some e \<Rightarrow>
                 throws env PaymentCreate \<or> \<not> Payment_accepts s (stripePayment env ev k e) \<or>
                 throws env PaymentSum \<or> throws env EnrollmentUpdate))))"
  by (simp add: stripeSucceeded_def Payment_create_def isl_updateEnrollmentPaymentStatus
      split: option.splits)

lemma fst_stripeWebhook:
  "fst (stripeWebhook env ce s) =
     (case ce of Inl err \<Rightarrow> Response 400 (''Webhook Error: '' @ err)
      | Inr ev \<Rightarrow>
          if isl (if ev_type ev = ''payment_intent.succeeded'' then stripeSucceeded env ev s
                  else if ev_type ev = ''payment_intent.payment_failed'' then stripeFailed env ev s
                  else Inr s)
          then Response 500 ''Webhook processing failed'' else Response 200 ''received'')"
  by (simp add: stripeWebhook_def split: sum.splits)


lemma enrollments_stripeSucceeded_Inl:
  "stripeSucceeded env ev s = Inl s1 \<Longrightarrow> enrollments s1 = enrollments s"
  by (auto simp: stripeSucceeded_def Payment_create_def updateEnrollmentPaymentStatus_def
      split: if_splits option.splits)

lemma stripeWebhook_500_enrollments:
  assumes "fst (stripeWebhook env ce s) = Response 500 ''Webhook processing failed''"
  shows "enrollments (snd (stripeWebhook env ce s)) = enrollments s"
proof (cases ce)
  case (Inl err)
  then show ?thesis by (simp add: stripeWebhook_def)
next
  case (Inr ev)
  then show ?thesis
    using assms
    by (auto simp: stripeWebhook_def stripeFailed_def dest: enrollments_stripeSucceeded_Inl
        split: sum.splits if_splits)
qed

subsection \<open>Which handlers read the enrollment's status\<close>












subsection \<open>\<^verbatim>\<open>createOrder\<close> as it stands\<close>

text \<open>The object that \<^verbatim>\<open>createOrder\<close> passes to \<^verbatim>\<open>Payment.create\<close> lacks three
  \<^verbatim>\<open>allowNull: false\<close> columns, so the model refuses it on every request: the handler
  stores no payment and never answers 200.\<close>

lemma orderPayment_refused: "Payment_create s (orderPayment env req course) = None"
  by (simp add: Payment_create_def Payment_accepts_def orderPayment_def)

lemma createOrder_stores_nothing:
  "snd (createOrder env req s) = s \<and> statusCode (fst (createOrder env req s)) \<in> {404, 500}"
  by (simp add: createOrder_def orderPayment_refused processingFailed_def split: option.splits)

subsection \<open>The capacity check, the duplicate check and the unique index\<close>

lemma existingEnrollment_Some:
  assumes "e \<in> set (enrollments s)" "studentId e = sid" "courseId e = cid"
    "e_status e = EnrPending \<or> e_status e = EnrActive"
  shows "\<exists>x. existingEnrollment s sid cid = Some x"
proof -
  have "find (\<lambda>e. studentId e = sid \<and> courseId e = cid \<and> e_status e \<in> {EnrPending, EnrActive})
       (enrollments s) \<noteq> None"
    using assms by (auto simp: find_None_iff)
  then show ?thesis by (auto simp: existingEnrollment_def)
qed

lemma violatesUniqueIndex_iff:
  "violatesUniqueIndex s sid cid =
     (\<exists>e \<in> set (enrollments s). studentId e = sid \<and> courseId e = cid)"
  by (auto simp: violatesUniqueIndex_def find_None_iff)

text \<open>As the handler stands, every request that reaches the capacity check ends in its
  \<^verbatim>\<open>catch\<close>: no request is answered 201 or 409, and no enrollment is ever written.\<close>

lemma isFull_throws: "isFull s c = Inl TypeError"
  by (simp add: isFull_def getCurrentEnrollmentCount_def destructuredEnrollment_def)

lemma createEnrollment_never_201_409:
  "statusCode (fst (createEnrollment env rq s)) \<noteq> 201 \<and>
   statusCode (fst (createEnrollment env rq s)) \<noteq> 409 \<and>
   snd (createEnrollment env rq s) = s"
  by (simp add: createEnrollment_def isFull_throws split: option.splits)

text \<open>The duplicate check that the handler does not reach lists the statuses pending and
  active: for the suspended enrollment it finds nothing, while the unique index refuses
  a second row for the pair.\<close>

lemma duplicate_check_on_suspended:
  "map e_status (enrollments suspendedLedger) = [EnrSuspended] \<and>
   existingEnrollment suspendedLedger (ce_studentId enrollAgain) (ce_courseId enrollAgain) = None \<and>
   violatesUniqueIndex suspendedLedger (ce_studentId enrollAgain) (ce_courseId enrollAgain)"
  by (simp add: example_defs existingEnrollment_def violatesUniqueIndex_def)

section \<open>The ledger invariant\<close>

text \<open>
  Claim C1. At every reachable state an enrollment's \<^verbatim>\<open>paidAmount\<close> is the sum of its
  completed payments, and \<^verbatim>\<open>paymentStatus\<close> follows from
  \<^verbatim>\<open>totalAmount - discountAmount - paidAmount\<close>. The handlers do not keep this. On an
  enrollment of 1000.00 with a discount of 200.00, a completed payment of 800.00 is
  recorded: the recompute block stores \<^verbatim>\<open>paidAmount\<close> 800.00 and the status
  \<^verbatim>\<open>'partial'\<close>, although \<^verbatim>\<open>getRemainingAmount\<close> of the same row is 0, because the
  block subtracts no discount. The payment is then refunded: no completed payment is
  left, the sum is 0 (\<^verbatim>\<open>Payment.sum\<close> would answer \<^verbatim>\<open>null\<close>), and the enrollment
  still says 800.00 paid, because the refund handler does not run the block.
\<close>

theorem paidAmount_invariant_broken:
  "fst (createPayment quiet payment800 discountedLedger) =
     Response 201 ''Payment created successfully'' \<and>
   map paidAmount (enrollments discountedPaid) = [Some 80000] \<and>
   Payment_sum_completed discountedPaid ''e1'' = Some 80000 \<and>
   spec_paidAmount discountedPaid ''e1'' = 80000 \<and>
   map getRemainingAmount (enrollments discountedPaid) = [Some 0] \<and>
   map isFullyPaid (enrollments discountedPaid) = [Some True] \<and>
   map paymentStatus (enrollments discountedPaid) = [PsPartial] \<and>
   fst (refund quiet refund800 discountedPaid) = Response 200 ''Refund processed successfully'' \<and>
   map p_status (payments discountedRefunded) = [Refunded] \<and>
   Payment_sum_completed discountedRefunded ''e1'' = None \<and>
   spec_paidAmount discountedRefunded ''e1'' = 0 \<and>
   map paidAmount (enrollments discountedRefunded) = [Some 80000]"
  by (simp add: example_defs createPayment_def refund_def store_defs spec_paidAmount_def
      getRemainingAmount_def isFullyPaid_def wholeUnits_def)

section \<open>Webhook deliveries\<close>

text \<open>
  Claim C2. A second delivery of the same webhook event changes nothing when the payment
  row is already in a terminal state. \<^verbatim>\<open>handleOrderPaid\<close> does not keep this: it has
  no test of the row's state. The order of the pending charge is notified as paid and the
  payment becomes completed; the payment is refunded; the same \<^verbatim>\<open>order.paid\<close>
  notification arrives again, finds the row in the terminal state \<^verbatim>\<open>'refunded'\<close>, and
  the handler sets it back to \<^verbatim>\<open>'completed'\<close>.
\<close>

theorem redelivery_overwrites_refunded:
  "map p_status (payments oxxoLedger) = [Pending] \<and>
   map p_status (payments confirmedLedger) = [Completed] \<and>
   fst (refundPayment quiet ''p1'' confirmedLedger) = Response 200 ''Payment refunded successfully'' \<and>
   map p_status (payments refundedLedger) = [Refunded] \<and>
   fst (webhook quiet (Some ''forged'') orderPaid refundedLedger) = Response 200 ''received'' \<and>
   map p_status (payments (snd (webhook quiet (Some ''forged'') orderPaid refundedLedger))) =
     [Completed] \<and>
   snd (webhook quiet (Some ''forged'') orderPaid refundedLedger) \<noteq> refundedLedger"
  by (simp add: example_defs webhook_def handleOrderPaid_def refundPayment_def store_defs)

section \<open>Refunds\<close>

text \<open>
  Claim C3. A refund of at most the payment's amount reduces the enrollment's
  \<^verbatim>\<open>paidAmount\<close> by the refunded amount. The refund handlers write the payment row
  only. The cash payment of 1000.00 is refunded by 400.00 through
  \<^verbatim>\<open>POST /:id/refund\<close>: the request succeeds, the payment is \<^verbatim>\<open>'refunded'\<close> with
  \<^verbatim>\<open>refundAmount\<close> 400.00, and the enrollment still says 1000.00 paid, where the claim
  has 600.00. \<^verbatim>\<open>ConektaController.refundPayment\<close> on the same payment leaves the
  enrollment at 1000.00 as well.
\<close>

theorem refund_leaves_paidAmount:
  "map paidAmount (enrollments paidLedger) = [Some 100000] \<and>
   map p_status (payments paidLedger) = [Completed] \<and>
   map amount (payments paidLedger) = [100000] \<and>
   fst (refund quiet refund400 paidLedger) = Response 200 ''Refund processed successfully'' \<and>
   map p_status (payments (snd (refund quiet refund400 paidLedger))) = [Refunded] \<and>
   map refundAmount (payments (snd (refund quiet refund400 paidLedger))) = [40000] \<and>
   map paidAmount (enrollments (snd (refund quiet refund400 paidLedger))) = [Some 100000] \<and>
   fst (refundPayment quiet ''p1'' paidLedger) = Response 200 ''Payment refunded successfully'' \<and>
   map p_status (payments (snd (refundPayment quiet ''p1'' paidLedger))) = [Refunded] \<and>
   map paidAmount (enrollments (snd (refundPayment quiet ''p1'' paidLedger))) = [Some 100000]"
  by (simp add: example_defs createPayment_def refund_def refundPayment_def store_defs)

section \<open>Webhook confirmations and reconciliation\<close>

text \<open>
  Claim C4. A webhook event that finds a non-terminal payment row updates the row's status
  and then recomputes the enrollment. No handler does both. The \<^verbatim>\<open>order.paid\<close>
  notification for the pending charge of 1500.00 completes the payment and leaves the
  enrollment at 0 paid and \<^verbatim>\<open>'pending'\<close>, where the recompute block on that ledger gives
  1500.00 and \<^verbatim>\<open>'completed'\<close>. The \<^verbatim>\<open>payment_intent.succeeded\<close> event for the pending
  Stripe payment finds the row and returns, leaving it pending.
\<close>

theorem confirmation_without_reconciliation:
  "map p_status (payments oxxoLedger) = [Pending] \<and>
   fst (webhook quiet (Some ''forged'') orderPaid oxxoLedger) = Response 200 ''received'' \<and>
   map p_status (payments confirmedLedger) = [Completed] \<and>
   Payment_sum_completed confirmedLedger ''e1'' = Some 150000 \<and>
   enrollments confirmedLedger = [enrollment1] \<and>
   paidAmount enrollment1 = Some 0 \<and>
   paymentStatus enrollment1 = PsPending \<and>
   map paidAmount (enrollments (recompute 5000 enrollment1 confirmedLedger)) = [Some 150000] \<and>
   map paymentStatus (enrollments (recompute 5000 enrollment1 confirmedLedger)) = [PsCompleted] \<and>
   map p_status (payments pendingLedger) = [Pending] \<and>
   stripeWebhook quiet (Inr intentSucceeded) pendingLedger =
     (Response 200 ''received'', pendingLedger)"
  by (simp add: example_defs webhook_def handleOrderPaid_def createPayment_def
      stripeWebhook_def stripeSucceeded_def store_defs)

section \<open>Reconciliation run twice\<close>

text \<open>
  Claim C5. The recompute block is idempotent: run again for the same enrollment when no
  payment has newly become completed or refunded, it produces the same result, because it
  computes from the payment rows and not from the amount stored before. The block runs for
  the enrollment \<open>e\<close> of key \<open>k\<close> on the ledger \<open>s\<close> at time \<open>t1\<close>. It runs again at
  time \<open>t2\<close> on a ledger \<open>s'\<close> that holds the enrollment rows as the first run left them
  and payment rows that may have changed in any way that leaves the amounts of the completed
  payments of \<open>k\<close> as they were (in the code the block always follows an insert). The row \<open>e1\<close>
  that the second run loads holds the sum and the status that the first run computed
  (\<^verbatim>\<open>NULL\<close> when there is no completed payment); the second run writes the same two
  values again, so that it changes nothing but \<^verbatim>\<open>lastPaymentDate\<close>, which every run
  sets to its own clock reading; at the same clock reading it changes nothing at all.
\<close>

theorem recompute_idempotent:
  assumes "Enrollment_findByPk s k = Some e"
    and "enrollments s' = enrollments (recompute t1 e s)"
    and "map amount (completedPayments s' k) = map amount (completedPayments s k)"
  shows "\<exists>e1. Enrollment_findByPk s' k = Some e1 \<and>
           paidAmount e1 = Payment_sum_completed s k \<and>
           paymentStatus e1 = paymentStatusOf (totalAmount e) (Payment_sum_completed s k) \<and>
           recompute t2 e1 s' =
             Enrollment_update s' k (\<lambda>x. x\<lparr>lastPaymentDate := Some t2\<rparr>) \<and>
           recompute t1 e1 s' = s'"
proof -
  have k: "e_id e = k" using assms(1) by (rule Enrollment_findByPk_id)
  define tp where "tp = Payment_sum_completed s k"
  define f :: "enrollment \<Rightarrow> enrollment" where "f = (\<lambda>x. x\<lparr>paidAmount := tp,
      paymentStatus := paymentStatusOf (totalAmount e) tp, lastPaymentDate := Some t1\<rparr>)"
  define F where "F = (\<lambda>x. if e_id x = k then f x else x)"
  have s1: "recompute t1 e s = Enrollment_update s k f"
    by (simp add: recompute_def Let_def k tp_def f_def)
  have fid: "\<And>x. e_id (f x) = e_id x" by (simp add: f_def)
  have en: "enrollments s' = map F (enrollments s)"
    by (simp add: assms(2) s1 Enrollment_update_def F_def)
  have "Enrollment_findByPk s' k = Enrollment_findByPk (recompute t1 e s) k"
    by (simp add: Enrollment_findByPk_def assms(2))
  then have e1: "Enrollment_findByPk s' k = Some (f e)"
    using assms(1) k by (simp add: s1 Enrollment_findByPk_update [OF fid])
  have "(completedPayments s' k = []) = (completedPayments s k = [])"
    using assms(3) by (metis map_is_Nil_conv)
  then have sum': "Payment_sum_completed s' k = tp"
    by (simp add: tp_def Payment_sum_completed_def assms(3))
  have a: "e_id (f e) = k" by (simp add: fid k)
  have b: "totalAmount (f e) = totalAmount e" by (simp add: f_def)
  have again: "recompute t (f e) s' =
      s'\<lparr>enrollments := map (\<lambda>x. if e_id x = k then (f x)\<lparr>paidAmount := tp,
        paymentStatus := paymentStatusOf (totalAmount e) tp, lastPaymentDate := Some t\<rparr> else x)
        (enrollments s)\<rparr>" for t
    by (simp add: recompute_def Let_def k b sum' Enrollment_update_def en F_def fid)
  have same: "recompute t1 (f e) s' = s'"
  proof -
    have "(\<lambda>x. if e_id x = k then (f x)\<lparr>paidAmount := tp,
        paymentStatus := paymentStatusOf (totalAmount e) tp, lastPaymentDate := Some t1\<rparr> else x) = F"
      by (simp add: F_def f_def fun_eq_iff)
    then have "recompute t1 (f e) s' = s'\<lparr>enrollments := enrollments s'\<rparr>"
      by (simp only: again en)
    then show ?thesis by simp
  qed
  have later: "recompute t2 (f e) s' =
      Enrollment_update s' k (\<lambda>x. x\<lparr>lastPaymentDate := Some t2\<rparr>)"
  proof -
    have "Enrollment_update s' k (\<lambda>x. x\<lparr>lastPaymentDate := Some t2\<rparr>) =
        s'\<lparr>enrollments := map (\<lambda>x. if e_id x = k then (f x)\<lparr>lastPaymentDate := Some t2\<rparr> else x)
          (enrollments s)\<rparr>"
      by (simp add: Enrollment_update_def en F_def fid)
    moreover have "(\<lambda>x. if e_id x = k then (f x)\<lparr>paidAmount := tp,
        paymentStatus := paymentStatusOf (totalAmount e) tp, lastPaymentDate := Some t2\<rparr> else x) =
        (\<lambda>x. if e_id x = k then (f x)\<lparr>lastPaymentDate := Some t2\<rparr> else x)"
      by (simp add: f_def fun_eq_iff)
    ultimately show ?thesis by (simp only: again)
  qed
  have p: "paidAmount (f e) = tp" "paymentStatus (f e) = paymentStatusOf (totalAmount e) tp"
    by (simp_all add: f_def)
  show ?thesis using e1 same later p unfolding tp_def by blast
qed

theorem recompute_idempotent_witness:
  "Enrollment_findByPk cashInserted ''e1'' = Some enrollment1 \<and>
   snd (createPayment quiet cashPayment ledger0) = recompute 5000 enrollment1 cashInserted \<and>
   enrollments intentInserted = enrollments (recompute 5000 enrollment1 cashInserted) \<and>
   map p_status (payments cashInserted) = [Completed] \<and>
   map p_status (payments intentInserted) = [Completed, Pending] \<and>
   map amount (completedPayments intentInserted ''e1'') =
     map amount (completedPayments cashInserted ''e1'') \<and>
   snd (createPayment later stripeIntent paidLedger) = recompute 6000 paidEnrollment intentInserted \<and>
   Enrollment_findByPk intentInserted ''e1'' = Some paidEnrollment \<and>
   (\<exists>e1. Enrollment_findByPk intentInserted ''e1'' = Some e1 \<and>
      paidAmount e1 = Some 100000 \<and>
      paymentStatus e1 = PsPartial \<and>
      recompute 6000 e1 intentInserted =
        Enrollment_update intentInserted ''e1'' (\<lambda>x. x\<lparr>lastPaymentDate := Some 6000\<rparr>) \<and>
      recompute 5000 e1 intentInserted = intentInserted)"
proof -
  have h1: "Enrollment_findByPk cashInserted ''e1'' = Some enrollment1"
    by (simp add: example_defs store_defs)
  have h2: "enrollments intentInserted = enrollments (recompute 5000 enrollment1 cashInserted)"
    by (simp add: example_defs createPayment_def store_defs)
  have h3: "map amount (completedPayments intentInserted ''e1'') =
      map amount (completedPayments cashInserted ''e1'')"
    by (simp add: example_defs createPayment_def store_defs)
  have r1: "snd (createPayment quiet cashPayment ledger0) = recompute 5000 enrollment1 cashInserted"
    by (simp add: example_defs createPayment_def store_defs)
  have r2: "snd (createPayment later stripeIntent paidLedger) =
      recompute 6000 paidEnrollment intentInserted"
    by (simp add: example_defs createPayment_def store_defs)
  have st: "map p_status (payments cashInserted) = [Completed]"
    "map p_status (payments intentInserted) = [Completed, Pending]"
    "Enrollment_findByPk intentInserted ''e1'' = Some paidEnrollment"
    by (simp_all add: example_defs createPayment_def store_defs)
  have tp: "Payment_sum_completed cashInserted ''e1'' = Some 100000"
    by (simp add: example_defs store_defs)
  have ps: "paymentStatusOf (totalAmount enrollment1) (Some 100000) = PsPartial"
    by (simp add: example_defs paymentStatusOf_def toNumber_def)
  have c: "\<exists>e1. Enrollment_findByPk intentInserted ''e1'' = Some e1 \<and>
      paidAmount e1 = Some 100000 \<and>
      paymentStatus e1 = PsPartial \<and>
      recompute 6000 e1 intentInserted =
        Enrollment_update intentInserted ''e1'' (\<lambda>x. x\<lparr>lastPaymentDate := Some 6000\<rparr>) \<and>
      recompute 5000 e1 intentInserted = intentInserted"
    using recompute_idempotent [OF h1 h2 h3, of 6000] by (simp only: tp ps)
  show ?thesis
    by (intro conjI) (rule h1 h2 h3 r1 r2 st c)+
qed

section \<open>Enrollment checks when a payment is created\<close>




section \<open>Webhook signatures\<close>

text \<open>
  Claim C7. A webhook request that fails signature verification is rejected with 400 and
  the ledger is left untouched. The Stripe handler does so (\<^verbatim>\<open>constructEvent\<close> throws
  and the handler returns 400 before any data access). The Conekta handler, under the
  comment \<^verbatim>\<open>// Verificar la firma del webhook\<close>, only tests that the header
  \<^verbatim>\<open>conekta-signature\<close> is present: a request whose header holds the text
  \<^verbatim>\<open>forged\<close>, which no secret and no payload produced, is answered with 200 and its
  \<^verbatim>\<open>order.paid\<close> event is applied to the ledger.
\<close>

theorem unverified_signature_accepted:
  "map p_status (payments oxxoLedger) = [Pending] \<and>
   fst (webhook quiet (Some ''forged'') orderPaid oxxoLedger) = Response 200 ''received'' \<and>
   map p_status (payments (snd (webhook quiet (Some ''forged'') orderPaid oxxoLedger))) =
     [Completed] \<and>
   snd (webhook quiet (Some ''forged'') orderPaid oxxoLedger) \<noteq> oxxoLedger \<and>
   webhook quiet None orderPaid oxxoLedger = (Response 400 ''No signature provided'', oxxoLedger) \<and>
   stripeWebhook quiet (Inl ''No signatures found matching the expected signature'') oxxoLedger =
     (Response 400 ''Webhook Error: No signatures found matching the expected signature'',
      oxxoLedger)"
  by (simp add: example_defs webhook_def handleOrderPaid_def stripeWebhook_def store_defs)

section \<open>Acknowledging a webhook\<close>

text \<open>
  Claim C8, as stated, fails for Stripe: the signature verifies, the first data-access call
  of the processing throws, and the handler's \<^verbatim>\<open>catch\<close> answers 500
  \<^verbatim>\<open>Webhook processing failed\<close>.
\<close>

theorem stripe_webhook_reports_failure:
  "stripeWebhook (quiet\<lparr>throws := (\<lambda>c. c = PaymentFindOne)\<rparr>) (Inr intentSucceeded) ledger0 =
     (Response 500 ''Webhook processing failed'', ledger0)"
  by (simp add: example_defs stripeWebhook_def stripeSucceeded_def store_defs)

text \<open>
  Claim C8, amended. The Conekta webhook acknowledges with 200 every request that carries
  a signature header, whatever throws inside its event handlers, which catch and log. The
  Stripe webhook, once the signature verifies, answers 500 \<^verbatim>\<open>Webhook processing
  failed\<close> exactly when a call that the branch taken awaits throws, and 200 otherwise.
  For \<^verbatim>\<open>payment_intent.succeeded\<close> the calls are \<^verbatim>\<open>Payment.findOne\<close> and, when no
  row has the external id and the metadata names an enrollment,
  \<^verbatim>\<open>Enrollment.findByPk\<close> and, when the enrollment exists, \<^verbatim>\<open>Payment.create\<close>
  (which also throws when the model refuses the row), \<^verbatim>\<open>Payment.sum\<close> and
  \<^verbatim>\<open>enrollment.update\<close>; for \<^verbatim>\<open>payment_intent.payment_failed\<close> the call is
  \<^verbatim>\<open>Payment.update\<close>; an event of another type awaits nothing and is answered 200.
  When \<^verbatim>\<open>Payment.sum\<close> or \<^verbatim>\<open>enrollment.update\<close> throws, the answer is 500 and the
  payment row inserted before stays in the ledger; no answer of 500 comes with a changed
  enrollment row.
\<close>

theorem webhook_acknowledgement:
  "(truthy sig \<longrightarrow> fst (webhook env sig ev s) = Response 200 ''received'') \<and>
   (ev_type pi = ''payment_intent.succeeded'' \<longrightarrow>
      fst (stripeWebhook env (Inr pi) s) =
        (if throws env PaymentFindOne \<or>
            (Payment_findOne_external s (pi_id pi) = None \<and>
             (case pi_enrollmentId pi of
                None \<Rightarrow> False
              | Some k \<Rightarrow>
                  throws env EnrollmentFindByPk \<or>
                  (case Enrollment_findByPk s k of
                     None \<Rightarrow> False
                   | Some e \<Rightarrow>
                       throws env PaymentCreate \<or>
                       \<not> Payment_accepts s (stripePayment env pi k e) \<or>
                       throws env PaymentSum \<or> throws env EnrollmentUpdate)))
         then Response 500 ''Webhook processing failed''
         else Response 200 ''received'')) \<and>
   (ev_type pi = ''payment_intent.payment_failed'' \<longrightarrow>
      stripeWebhook env (Inr pi) s =
        (if throws env PaymentUpdate then (Response 500 ''Webhook processing failed'', s)
         else (Response 200 ''received'',
               Payment_update_external s (pi_id pi) (\<lambda>p. p\<lparr>p_status := Failed\<rparr>)))) \<and>
   (ev_type pi \<noteq> ''payment_intent.succeeded'' \<and>
    ev_type pi \<noteq> ''payment_intent.payment_failed'' \<longrightarrow>
      stripeWebhook env (Inr pi) s = (Response 200 ''received'', s)) \<and>
   (ev_type pi = ''payment_intent.succeeded'' \<and> \<not> throws env PaymentFindOne \<and>
    Payment_findOne_external s (pi_id pi) = None \<and> pi_enrollmentId pi = Some k' \<and>
    \<not> throws env EnrollmentFindByPk \<and> Enrollment_findByPk s k' = Some e' \<and>
    \<not> throws env PaymentCreate \<and> Payment_accepts s (stripePayment env pi k' e') \<and>
    (throws env PaymentSum \<or> throws env EnrollmentUpdate) \<longrightarrow>
      stripeWebhook env (Inr pi) s =
        (Response 500 ''Webhook processing failed'',
         s\<lparr>payments := payments s @ [stripePayment env pi k' e']\<rparr>)) \<and>
   (fst (stripeWebhook env ce s) = Response 500 ''Webhook processing failed'' \<longrightarrow>
      enrollments (snd (stripeWebhook env ce s)) = enrollments s)"
proof -
  have a: "truthy sig \<longrightarrow> fst (webhook env sig ev s) = Response 200 ''received''"
    by (simp add: fst_webhook)
  have b: "ev_type pi = ''payment_intent.succeeded'' \<longrightarrow>
      fst (stripeWebhook env (Inr pi) s) =
        (if throws env PaymentFindOne \<or>
            (Payment_findOne_external s (pi_id pi) = None \<and>
             (case pi_enrollmentId pi of
                None \<Rightarrow> False
              | Some k \<Rightarrow>
                  throws env EnrollmentFindByPk \<or>
                  (case Enrollment_findByPk s k of
                     None \<Rightarrow> False
                   | Some e \<Rightarrow>
                       throws env PaymentCreate \<or>
                       \<not> Payment_accepts s (stripePayment env pi k e) \<or>
                       throws env PaymentSum \<or> throws env EnrollmentUpdate)))
         then Response 500 ''Webhook processing failed''
         else Response 200 ''received'')"
    by (simp add: fst_stripeWebhook isl_stripeSucceeded)
  have c: "ev_type pi = ''payment_intent.payment_failed'' \<longrightarrow>
      stripeWebhook env (Inr pi) s =
        (if throws env PaymentUpdate then (Response 500 ''Webhook processing failed'', s)
         else (Response 200 ''received'',
               Payment_update_external s (pi_id pi) (\<lambda>p. p\<lparr>p_status := Failed\<rparr>)))"
    by (simp add: stripeWebhook_def stripeFailed_def)
  have d: "ev_type pi \<noteq> ''payment_intent.succeeded'' \<and>
    ev_type pi \<noteq> ''payment_intent.payment_failed'' \<longrightarrow>
      stripeWebhook env (Inr pi) s = (Response 200 ''received'', s)"
    by (simp add: stripeWebhook_def)
  have e: "ev_type pi = ''payment_intent.succeeded'' \<and> \<not> throws env PaymentFindOne \<and>
    Payment_findOne_external s (pi_id pi) = None \<and> pi_enrollmentId pi = Some k' \<and>
    \<not> throws env EnrollmentFindByPk \<and> Enrollment_findByPk s k' = Some e' \<and>
    \<not> throws env PaymentCreate \<and> Payment_accepts s (stripePayment env pi k' e') \<and>
    (throws env PaymentSum \<or> throws env EnrollmentUpdate) \<longrightarrow>
      stripeWebhook env (Inr pi) s =
        (Response 500 ''Webhook processing failed'',
         s\<lparr>payments := payments s @ [stripePayment env pi k' e']\<rparr>)"
    by (auto simp: stripeWebhook_def stripeSucceeded_def Payment_create_def
        updateEnrollmentPaymentStatus_def)
  have f: "fst (stripeWebhook env ce s) = Response 500 ''Webhook processing failed'' \<longrightarrow>
      enrollments (snd (stripeWebhook env ce s)) = enrollments s"
    by (simp add: stripeWebhook_500_enrollments)
  show ?thesis
    by (intro conjI) (rule a b c d e f)+
qed

theorem webhook_acknowledgement_witness:
  "truthy (Some ''forged'') \<and>
   fst (webhook (quiet\<lparr>throws := (\<lambda>c. True)\<rparr>) (Some ''forged'') orderPaid oxxoLedger) =
     Response 200 ''received'' \<and>
   ev_type intentSucceeded = ''payment_intent.succeeded'' \<and>
   fst (stripeWebhook quiet (Inr intentSucceeded) ledger0) = Response 200 ''received'' \<and>
   fst (stripeWebhook (quiet\<lparr>throws := (\<lambda>c. c = EnrollmentFindByPk)\<rparr>) (Inr intentSucceeded)
          ledger0) = Response 500 ''Webhook processing failed'' \<and>
   fst (stripeWebhook (quiet\<lparr>throws := (\<lambda>c. c = PaymentCreate)\<rparr>) (Inr intentSucceeded)
          ledger0) = Response 500 ''Webhook processing failed'' \<and>
   fst (stripeWebhook quiet (Inr (intentSucceeded\<lparr>pi_amount := 0\<rparr>)) ledger0) =
     Response 500 ''Webhook processing failed'' \<and>
   fst (stripeWebhook (quiet\<lparr>throws := (\<lambda>c. c = EnrollmentUpdate)\<rparr>) (Inr intentSucceeded)
          ledger0) = Response 500 ''Webhook processing failed'' \<and>
   ev_type intentFailed = ''payment_intent.payment_failed'' \<and>
   stripeWebhook (quiet\<lparr>throws := (\<lambda>c. c = PaymentUpdate)\<rparr>) (Inr intentFailed) pendingLedger =
     (Response 500 ''Webhook processing failed'', pendingLedger) \<and>
   stripeWebhook quiet (Inr (intentSucceeded\<lparr>ev_type := ''charge.succeeded''\<rparr>)) ledger0 =
     (Response 200 ''received'', ledger0) \<and>
   stripeWebhook (quiet\<lparr>throws := (\<lambda>c. c = PaymentSum)\<rparr>) (Inr intentSucceeded) ledger0 =
     (Response 500 ''Webhook processing failed'',
      ledger0\<lparr>payments := [stripePayment quiet intentSucceeded ''e1'' enrollment1]\<rparr>) \<and>
   enrollments (snd (stripeWebhook (quiet\<lparr>throws := (\<lambda>c. c = EnrollmentUpdate)\<rparr>)
     (Inr intentSucceeded) ledger0)) = enrollments ledger0"
proof -
  have h: "truthy (Some ''forged'')"
    "ev_type intentSucceeded = ''payment_intent.succeeded''"
    "ev_type intentFailed = ''payment_intent.payment_failed''"
    by (simp_all add: example_defs truthy_def)
  have t: "ev_type (intentSucceeded\<lparr>pi_amount := 0\<rparr>) = ''payment_intent.succeeded''"
    "ev_type (intentSucceeded\<lparr>ev_type := ''charge.succeeded''\<rparr>) \<noteq> ''payment_intent.succeeded'' \<and>
     ev_type (intentSucceeded\<lparr>ev_type := ''charge.succeeded''\<rparr>) \<noteq> ''payment_intent.payment_failed''"
    by (simp_all add: example_defs)
  have c1: "fst (webhook (quiet\<lparr>throws := (\<lambda>c. True)\<rparr>) (Some ''forged'') orderPaid oxxoLedger) =
      Response 200 ''received''"
    using h(1) webhook_acknowledgement [where sig = "Some ''forged''"
        and env = "quiet\<lparr>throws := (\<lambda>c. True)\<rparr>" and ev = orderPaid and s = oxxoLedger,
        THEN conjunct1]
    by simp
  have c2: "fst (stripeWebhook quiet (Inr intentSucceeded) ledger0) = Response 200 ''received''"
    using webhook_acknowledgement [where env = quiet and pi = intentSucceeded and s = ledger0,
        THEN conjunct2, THEN conjunct1, rule_format, OF h(2)]
    by (simp add: example_defs store_defs)
  have c3: "fst (stripeWebhook (quiet\<lparr>throws := (\<lambda>c. c = EnrollmentFindByPk)\<rparr>)
      (Inr intentSucceeded) ledger0) = Response 500 ''Webhook processing failed''"
    using webhook_acknowledgement [where env = "quiet\<lparr>throws := (\<lambda>c. c = EnrollmentFindByPk)\<rparr>"
        and pi = intentSucceeded and s = ledger0,
        THEN conjunct2, THEN conjunct1, rule_format, OF h(2)]
    by (simp add: example_defs store_defs)
  have c4: "fst (stripeWebhook (quiet\<lparr>throws := (\<lambda>c. c = PaymentCreate)\<rparr>)
      (Inr intentSucceeded) ledger0) = Response 500 ''Webhook processing failed''"
    using webhook_acknowledgement [where env = "quiet\<lparr>throws := (\<lambda>c. c = PaymentCreate)\<rparr>"
        and pi = intentSucceeded and s = ledger0,
        THEN conjunct2, THEN conjunct1, rule_format, OF h(2)]
    by (simp add: example_defs store_defs)
  have c5: "fst (stripeWebhook quiet (Inr (intentSucceeded\<lparr>pi_amount := 0\<rparr>)) ledger0) =
      Response 500 ''Webhook processing failed''"
    using webhook_acknowledgement [where env = quiet and pi = "intentSucceeded\<lparr>pi_amount := 0\<rparr>"
        and s = ledger0,
        THEN conjunct2, THEN conjunct1, rule_format, OF t(1)]
    by (simp add: example_defs store_defs)
  have c6: "fst (stripeWebhook (quiet\<lparr>throws := (\<lambda>c. c = EnrollmentUpdate)\<rparr>)
      (Inr intentSucceeded) ledger0) = Response 500 ''Webhook processing failed''"
    using webhook_acknowledgement [where env = "quiet\<lparr>throws := (\<lambda>c. c = EnrollmentUpdate)\<rparr>"
        and pi = intentSucceeded and s = ledger0,
        THEN conjunct2, THEN conjunct1, rule_format, OF h(2)]
    by (simp add: example_defs store_defs)
  have c7: "stripeWebhook (quiet\<lparr>throws := (\<lambda>c. c = PaymentUpdate)\<rparr>) (Inr intentFailed)
      pendingLedger = (Response 500 ''Webhook processing failed'', pendingLedger)"
    using webhook_acknowledgement [where env = "quiet\<lparr>throws := (\<lambda>c. c = PaymentUpdate)\<rparr>"
        and pi = intentFailed and s = pendingLedger,
        THEN conjunct2, THEN conjunct2, THEN conjunct1, rule_format, OF h(3)]
    by simp
  have c8: "stripeWebhook quiet (Inr (intentSucceeded\<lparr>ev_type := ''charge.succeeded''\<rparr>)) ledger0 =
      (Response 200 ''received'', ledger0)"
    using webhook_acknowledgement [where env = quiet
        and pi = "intentSucceeded\<lparr>ev_type := ''charge.succeeded''\<rparr>" and s = ledger0,
        THEN conjunct2, THEN conjunct2, THEN conjunct2, THEN conjunct1, rule_format, OF t(2)]
    by simp
  have g: "\<not> throws (quiet\<lparr>throws := (\<lambda>c. c = PaymentSum)\<rparr>) PaymentFindOne \<and>
      Payment_findOne_external ledger0 (pi_id intentSucceeded) = None \<and>
      pi_enrollmentId intentSucceeded = Some ''e1'' \<and>
      \<not> throws (quiet\<lparr>throws := (\<lambda>c. c = PaymentSum)\<rparr>) EnrollmentFindByPk \<and>
      Enrollment_findByPk ledger0 ''e1'' = Some enrollment1 \<and>
      \<not> throws (quiet\<lparr>throws := (\<lambda>c. c = PaymentSum)\<rparr>) PaymentCreate \<and>
      Payment_accepts ledger0
        (stripePayment (quiet\<lparr>throws := (\<lambda>c. c = PaymentSum)\<rparr>) intentSucceeded ''e1'' enrollment1) \<and>
      (throws (quiet\<lparr>throws := (\<lambda>c. c = PaymentSum)\<rparr>) PaymentSum \<or>
       throws (quiet\<lparr>throws := (\<lambda>c. c = PaymentSum)\<rparr>) EnrollmentUpdate)"
    by (simp add: example_defs store_defs)
  have r: "stripePayment (quiet\<lparr>throws := (\<lambda>c. c = PaymentSum)\<rparr>) intentSucceeded ''e1'' enrollment1 =
      stripePayment quiet intentSucceeded ''e1'' enrollment1"
    "payments ledger0 = []"
    by (simp_all add: example_defs stripePayment_def)
  have c9: "stripeWebhook (quiet\<lparr>throws := (\<lambda>c. c = PaymentSum)\<rparr>) (Inr intentSucceeded) ledger0 =
     (Response 500 ''Webhook processing failed'',
      ledger0\<lparr>payments := [stripePayment quiet intentSucceeded ''e1'' enrollment1]\<rparr>)"
    using webhook_acknowledgement [where env = "quiet\<lparr>throws := (\<lambda>c. c = PaymentSum)\<rparr>"
        and pi = intentSucceeded and s = ledger0 and k' = "''e1''" and e' = enrollment1,
        THEN conjunct2, THEN conjunct2, THEN conjunct2, THEN conjunct2, THEN conjunct1,
        rule_format, OF conjI [OF h(2) g]]
    by (simp only: r append_Nil)
  have c10: "enrollments (snd (stripeWebhook (quiet\<lparr>throws := (\<lambda>c. c = EnrollmentUpdate)\<rparr>)
      (Inr intentSucceeded) ledger0)) = enrollments ledger0"
    using webhook_acknowledgement [where env = "quiet\<lparr>throws := (\<lambda>c. c = EnrollmentUpdate)\<rparr>"
        and ce = "Inr intentSucceeded" and s = ledger0,
        THEN conjunct2, THEN conjunct2, THEN conjunct2, THEN conjunct2, THEN conjunct2,
        rule_format, OF c6]
    by simp
  show ?thesis
    by (intro conjI) (rule h c1 c2 c3 c4 c5 c6 c7 c8 c9 c10)+
qed

section \<open>Duplicate enrollments\<close>

text \<open>
  Claim C9. An enrollment request for a student and a course for which a non-cancelled
  enrollment exists is rejected with Conflict. The handler has the duplicate check and
  the 409, and does not reach them: \<^verbatim>\<open>await course.isFull()\<close> comes first and throws a
  \<^verbatim>\<open>TypeError\<close> on every request. The student, the course and the teacher exist, the
  course is active, the student's enrollment in the course is active, the check would
  find it, and the request for a second enrollment is answered 500, not 409.
\<close>

theorem active_duplicate_answered_500:
  "enrollments ledger0 = [enrollment1] \<and>
   e_status enrollment1 = EnrActive \<and>
   studentId enrollment1 = ce_studentId enrollAgain \<and>
   courseId enrollment1 = ce_courseId enrollAgain \<and>
   User_findByPk ledger0 (ce_studentId enrollAgain) = Some student1 \<and>
   u_role student1 = Student \<and>
   Course_findByPk ledger0 (ce_courseId enrollAgain) = Some course1 \<and>
   isActive course1 \<and>
   User_findByPk ledger0 (ce_teacherId enrollAgain) = Some teacher1 \<and>
   u_role teacher1 = Teacher \<and>
   existingEnrollment ledger0 (ce_studentId enrollAgain) (ce_courseId enrollAgain) =
     Some enrollment1 \<and>
   isFull ledger0 course1 = Inl TypeError \<and>
   createEnrollment quiet enrollAgain ledger0 =
     (Response 500 ''Failed to create enrollment'', ledger0)"
  by (simp add: example_defs createEnrollment_def store_defs existingEnrollment_def
      isFull_def getCurrentEnrollmentCount_def destructuredEnrollment_def)

section \<open>A failed payment intent\<close>

text \<open>
  Claim C10. A \<^verbatim>\<open>payment_intent.payment_failed\<close> event changes nothing but the status
  of the payment rows with the event's external id, which becomes \<^verbatim>\<open>'failed'\<close>: the
  enrollments (so \<^verbatim>\<open>paidAmount\<close>, \<^verbatim>\<open>paymentStatus\<close> and \<^verbatim>\<open>lastPaymentDate\<close> of each),
  the users and the courses are as before, no payment row is added or removed, and every
  row is either untouched or, when it carries the external id and the update does not
  throw, the same row with status \<^verbatim>\<open>'failed'\<close>.
\<close>

theorem payment_failed_frame:
  "ev_type pi = ''payment_intent.payment_failed'' \<longrightarrow>
     enrollments (snd (stripeWebhook env (Inr pi) s)) = enrollments s \<and>
     users (snd (stripeWebhook env (Inr pi) s)) = users s \<and>
     courses (snd (stripeWebhook env (Inr pi) s)) = courses s \<and>
     length (payments (snd (stripeWebhook env (Inr pi) s))) = length (payments s) \<and>
     (\<forall>i < length (payments s).
        payments (snd (stripeWebhook env (Inr pi) s)) ! i =
          (if externalPaymentId (payments s ! i) = Some (pi_id pi) \<and> \<not> throws env PaymentUpdate
           then (payments s ! i)\<lparr>p_status := Failed\<rparr> else payments s ! i))"
  by (simp add: stripeWebhook_def stripeFailed_def Payment_update_external_def)

theorem payment_failed_frame_witness:
  "ev_type intentFailed = ''payment_intent.payment_failed'' \<and>
   enrollments (snd (stripeWebhook quiet (Inr intentFailed) pendingLedger)) =
     enrollments pendingLedger \<and>
   users (snd (stripeWebhook quiet (Inr intentFailed) pendingLedger)) = users pendingLedger \<and>
   courses (snd (stripeWebhook quiet (Inr intentFailed) pendingLedger)) = courses pendingLedger \<and>
   map p_status (payments pendingLedger) = [Pending] \<and>
   payments (snd (stripeWebhook quiet (Inr intentFailed) pendingLedger)) =
     [(hd (payments pendingLedger))\<lparr>p_status := Failed\<rparr>]"
proof -
  have h: "ev_type intentFailed = ''payment_intent.payment_failed''"
    by (simp add: example_defs)
  have l: "length (payments pendingLedger) = 1"
    "payments pendingLedger ! 0 = hd (payments pendingLedger)"
    "externalPaymentId (hd (payments pendingLedger)) = Some (pi_id intentFailed)"
    "\<not> throws quiet PaymentUpdate"
    "map p_status (payments pendingLedger) = [Pending]"
    by (simp_all add: example_defs createPayment_def store_defs)
  from payment_failed_frame [of intentFailed quiet pendingLedger] h
  have c: "enrollments (snd (stripeWebhook quiet (Inr intentFailed) pendingLedger)) =
      enrollments pendingLedger"
    "users (snd (stripeWebhook quiet (Inr intentFailed) pendingLedger)) = users pendingLedger"
    "courses (snd (stripeWebhook quiet (Inr intentFailed) pendingLedger)) = courses pendingLedger"
    "length (payments (snd (stripeWebhook quiet (Inr intentFailed) pendingLedger))) = 1"
    "payments (snd (stripeWebhook quiet (Inr intentFailed) pendingLedger)) ! 0 =
       (hd (payments pendingLedger))\<lparr>p_status := Failed\<rparr>"
    by (simp_all add: l)
  have "payments (snd (stripeWebhook quiet (Inr intentFailed) pendingLedger)) =
      [(hd (payments pendingLedger))\<lparr>p_status := Failed\<rparr>]"
    using c(4,5) by (cases "payments (snd (stripeWebhook quiet (Inr intentFailed) pendingLedger))") auto
  then show ?thesis using h c l by simp
qed

end
